theory Spec2Isabelle
  imports Main "HOL-Library.AList"
begin

section \<open>Python values, exceptions and the built-ins the wrappers use\<close>

text \<open>
  The instrumentation in \<^verbatim>\<open>_wrappers.py\<close> is dynamically typed Python: it probes
  attributes of agent, model and tool objects, serialises arbitrary values and lets any
  exception of the wrapped call pass through.  The embedding therefore works on one type
  of Python values, and every operation that can raise returns a sum: \<open>Inl\<close> carries the
  raised exception, \<open>Inr\<close> the value.

  An exception carries three things the wrappers can observe: whether its class derives
  from \<^verbatim>\<open>Exception\<close> (every handler in the file is \<^verbatim>\<open>except Exception\<close>, which
  does not match \<^verbatim>\<open>KeyboardInterrupt\<close>, \<^verbatim>\<open>SystemExit\<close> or \<^verbatim>\<open>GeneratorExit\<close>),
  the name of its class, and the text \<^verbatim>\<open>str(exception)\<close> returns.  Two exceptions are the
  same object when they are equal as values.
\<close>

datatype pyexn = PyExn (is_Exception: bool) (exn_class: string) (exn_str: string)

text \<open>
  Values.  A dictionary is an association list in insertion order with string keys (the
  source annotates its mappings as \<^verbatim>\<open>Mapping[str, Any]\<close>).  \<open>PEnum c v\<close> is a member of
  the plain \<^verbatim>\<open>Enum\<close> class \<open>c\<close> whose \<^verbatim>\<open>.value\<close> is \<open>v\<close>.  \<open>PObj c cattrs attrs\<close> is
  an instance of class \<open>c\<close> with the class attributes \<open>cattrs\<close> and the instance attributes
  \<open>attrs\<close>.  \<open>PMethod r\<close> is a bound method taking no argument, whose call has the outcome
  \<open>r\<close>.  Floats are not modelled.
\<close>

datatype pyval =
    PNone
  | PBool bool
  | PInt int
  | PStr string
  | PList "pyval list"
  | PTuple "pyval list"
  | PDict "(string \<times> pyval) list"
  | PEnum string pyval
  | PObj string "(string \<times> pyval) list" "(string \<times> pyval) list"
  | PMethod "pyexn + pyval"

type_synonym pydict = "(string \<times> pyval) list"

text \<open>
  Exceptions the interpreter raises on behalf of the wrappers.  The message is abbreviated
  to the name involved; nothing below depends on its wording.
\<close>

definition AttributeError :: "string \<Rightarrow> pyexn" where
  "AttributeError a = PyExn True ''AttributeError'' a"

definition TypeError :: "string \<Rightarrow> pyexn" where
  "TypeError m = PyExn True ''TypeError'' m"

definition IndexError :: "string \<Rightarrow> pyexn" where
  "IndexError m = PyExn True ''IndexError'' m"

text \<open>Sequencing of computations that may raise: the first exception wins.\<close>

definition bindE :: "'e + 'a \<Rightarrow> ('a \<Rightarrow> 'e + 'b) \<Rightarrow> 'e + 'b" where
  "bindE m f = (case m of Inl e \<Rightarrow> Inl e | Inr a \<Rightarrow> f a)"

text \<open>Truth value testing (\<^verbatim>\<open>if x:\<close>, \<^verbatim>\<open>not x\<close>).\<close>

fun truthy :: "pyval \<Rightarrow> bool" where
  "truthy PNone = False"
| "truthy (PBool b) = b"
| "truthy (PInt i) = (i \<noteq> 0)"
| "truthy (PStr s) = (s \<noteq> [])"
| "truthy (PList xs) = (xs \<noteq> [])"
| "truthy (PTuple xs) = (xs \<noteq> [])"
| "truthy (PDict kvs) = (kvs \<noteq> [])"
| "truthy (PEnum c v) = True"
| "truthy (PObj c cattrs attrs) = True"
| "truthy (PMethod r) = True"

text \<open>\<^verbatim>\<open>isinstance(v, Mapping)\<close>, \<^verbatim>\<open>isinstance(v, dict)\<close>.\<close>

fun is_Mapping :: "pyval \<Rightarrow> bool" where
  "is_Mapping (PDict kvs) = True"
| "is_Mapping v = False"

text \<open>\<^verbatim>\<open>type(v).__name__\<close>, \<^verbatim>\<open>v.__class__.__name__\<close>.\<close>

fun class_name :: "pyval \<Rightarrow> string" where
  "class_name PNone = ''NoneType''"
| "class_name (PBool b) = ''bool''"
| "class_name (PInt i) = ''int''"
| "class_name (PStr s) = ''str''"
| "class_name (PList xs) = ''list''"
| "class_name (PTuple xs) = ''tuple''"
| "class_name (PDict kvs) = ''dict''"
| "class_name (PEnum c v) = c"
| "class_name (PObj c cattrs attrs) = c"
| "class_name (PMethod r) = ''method''"

text \<open>
  Attribute access \<^verbatim>\<open>o.name\<close>: instance attributes first, then class attributes; a value
  without the attribute raises \<^verbatim>\<open>AttributeError\<close>.  \<open>getattr_class\<close> is the access through
  the class, \<^verbatim>\<open>o.__class__.name\<close>, which sees class attributes only.
\<close>

fun getattr :: "pyval \<Rightarrow> string \<Rightarrow> pyexn + pyval" where
  "getattr (PObj c cattrs attrs) n =
     (case map_of attrs n of
        Some v \<Rightarrow> Inr v
      | None \<Rightarrow> (case map_of cattrs n of Some v \<Rightarrow> Inr v | None \<Rightarrow> Inl (AttributeError n)))"
| "getattr v n = Inl (AttributeError n)"

fun getattr_class :: "pyval \<Rightarrow> string \<Rightarrow> pyexn + pyval" where
  "getattr_class (PObj c cattrs attrs) n =
     (case map_of cattrs n of Some v \<Rightarrow> Inr v | None \<Rightarrow> Inl (AttributeError n))"
| "getattr_class v n = Inl (AttributeError n)"

text \<open>\<^verbatim>\<open>hasattr(o, name)\<close> and \<^verbatim>\<open>getattr(o, name, default)\<close>.\<close>

definition hasattr :: "pyval \<Rightarrow> string \<Rightarrow> bool" where
  "hasattr v n = (case getattr v n of Inl e \<Rightarrow> False | Inr a \<Rightarrow> True)"

definition getattr_or :: "pyval \<Rightarrow> string \<Rightarrow> pyval \<Rightarrow> pyval" where
  "getattr_or v n d = (case getattr v n of Inl e \<Rightarrow> d | Inr a \<Rightarrow> a)"

text \<open>\<^verbatim>\<open>callable(v)\<close> and the call \<^verbatim>\<open>v()\<close>.\<close>

fun callable :: "pyval \<Rightarrow> bool" where
  "callable (PMethod r) = True"
| "callable v = False"

fun call0 :: "pyval \<Rightarrow> pyexn + pyval" where
  "call0 (PMethod r) = r"
| "call0 v = Inl (TypeError ''not callable'')"

text \<open>Decimal numerals, as an f-string or \<^verbatim>\<open>json\<close> prints an integer.\<close>

definition digit_char :: "nat \<Rightarrow> char" where
  "digit_char d = ''0123456789'' ! d"

fun string_of_nat :: "nat \<Rightarrow> string" where
  "string_of_nat n =
     (if n < 10 then [digit_char n]
      else string_of_nat (n div 10) @ [digit_char (n mod 10)])"

declare string_of_nat.simps [simp del]

definition string_of_int :: "int \<Rightarrow> string" where
  "string_of_int i = (if i < 0 then ''-'' @ string_of_nat (nat (- i)) else string_of_nat (nat i))"

text \<open>
  Dictionaries.  \<open>dict_set\<close> is \<^verbatim>\<open>d[k] = v\<close>: an existing key keeps its position and takes
  the new value, a new key is appended.  \<open>dict_update d kvs\<close> is \<^verbatim>\<open>d.update(kvs)\<close>, also
  the unpacking \<^verbatim>\<open>{**d, **kvs}\<close>; \<open>py_dict\<close> is \<^verbatim>\<open>dict(pairs)\<close>.
\<close>

definition dict_set :: "string \<Rightarrow> pyval \<Rightarrow> pydict \<Rightarrow> pydict" where
  "dict_set k v d = AList.update k v d"

definition dict_update :: "pydict \<Rightarrow> (string \<times> pyval) list \<Rightarrow> pydict" where
  "dict_update d kvs = fold (\<lambda>(k, v). dict_set k v) kvs d"

definition py_dict :: "(string \<times> pyval) list \<Rightarrow> pydict" where
  "py_dict kvs = dict_update [] kvs"

definition dict_get :: "pydict \<Rightarrow> string \<Rightarrow> pyval \<Rightarrow> pyval" where
  "dict_get d k dflt = (case map_of d k of Some v \<Rightarrow> v | None \<Rightarrow> dflt)"

section \<open>The attribute flattener\<close>

text \<open>
  \<^verbatim>\<open>_flatten\<close> is a generator; every caller in the file consumes it completely
  (\<^verbatim>\<open>dict(_flatten(...))\<close>), so it is modelled by the list of pairs it yields, or the
  exception that ends the iteration.  A non-mapping argument that is truthy reaches
  \<^verbatim>\<open>mapping.items()\<close> and raises \<^verbatim>\<open>AttributeError\<close>.  \<open>flatten_items\<close> is the loop over
  \<^verbatim>\<open>mapping.items()\<close>, \<open>flatten_seq\<close> the loop over \<^verbatim>\<open>enumerate(value)\<close>.
\<close>

fun flatten :: "pyval \<Rightarrow> pyexn + (string \<times> pyval) list"
  and flatten_items :: "(string \<times> pyval) list \<Rightarrow> pyexn + (string \<times> pyval) list"
  and flatten_seq :: "string \<Rightarrow> nat \<Rightarrow> pyval list \<Rightarrow> pyexn + (string \<times> pyval) list"
where
  "flatten mapping =
     (if \<not> truthy mapping then Inr []
      else case mapping of
             PDict kvs \<Rightarrow> flatten_items kvs
           | _ \<Rightarrow> Inl (AttributeError ''items''))"
| "flatten_items [] = Inr []"
| "flatten_items ((key, v) # rest) =
     bindE
       (if v = PNone then Inr []
        else case v of
               PDict sub \<Rightarrow>
                 bindE (flatten v) (\<lambda>r. Inr (map (\<lambda>(sub_key, sub_value). (key @ ''.'' @ sub_key, sub_value)) r))
             | PList xs \<Rightarrow>
                 if list_ex is_Mapping xs then flatten_seq key 0 xs else Inr [(key, v)]
             | PEnum c u \<Rightarrow> Inr [(key, u)]
             | _ \<Rightarrow> Inr [(key, v)])
       (\<lambda>a. bindE (flatten_items rest) (\<lambda>b. Inr (a @ b)))"
| "flatten_seq key index [] = Inr []"
| "flatten_seq key index (sub_mapping # xs) =
     bindE (flatten sub_mapping)
       (\<lambda>r. bindE (flatten_seq key (Suc index) xs)
          (\<lambda>b. Inr (map (\<lambda>(sub_key, sub_value).
                        (key @ ''.'' @ string_of_nat index @ ''.'' @ sub_key, sub_value)) r @ b)))"

declare flatten.simps [simp del]

section \<open>External collaborators\<close>

text \<open>
  What the wrappers consume from outside the file is a parameter of the embedding, so that
  every theorem holds for every behaviour of these collaborators:
  \<^item> the suppression flag \<^verbatim>\<open>context_api.get_value(_SUPPRESS_INSTRUMENTATION_KEY)\<close> and the
    attributes of the ambient context, \<^verbatim>\<open>get_attributes_from_context()\<close>;
  \<^item> the built-ins \<^verbatim>\<open>str\<close> and \<^verbatim>\<open>repr\<close> (taken as total) and the string escaping of the
    \<^verbatim>\<open>json\<close> module;
  \<^item> \<^verbatim>\<open>safe_json_dumps\<close> of \<^verbatim>\<open>openinference.instrumentation\<close>, with the encoder class it
    is given, if any;
  \<^item> \<^verbatim>\<open>isinstance(tool, Tool)\<close> and \<^verbatim>\<open>get_json_schema\<close> of the agent framework.
\<close>

datatype encoder_cls = JSONEncoder | SafeJSONEncoder

record env =
  suppress_instrumentation :: bool
  attributes_from_context :: pydict
  py_str :: "pyval \<Rightarrow> string"
  py_repr :: "pyval \<Rightarrow> string"
  encode_basestring :: "string \<Rightarrow> string"
  safe_json_dumps :: "encoder_cls option \<Rightarrow> pyval \<Rightarrow> pyexn + string"
  is_Tool :: "pyval \<Rightarrow> bool"
  get_json_schema :: "pyval \<Rightarrow> pyexn + pyval"

section \<open>The safe encoder\<close>

text \<open>
  \<^verbatim>\<open>json.JSONEncoder.default\<close> raises \<^verbatim>\<open>TypeError\<close> for every object it is asked about.
  \<^verbatim>\<open>SafeJSONEncoder.default\<close> catches that \<^verbatim>\<open>TypeError\<close> and returns \<^verbatim>\<open>o.dict()\<close> when the
  object has a callable \<^verbatim>\<open>dict\<close> attribute, \<^verbatim>\<open>repr(o)\<close> otherwise; the call \<^verbatim>\<open>o.dict()\<close>
  stands in the handler unguarded.
\<close>

definition JSONEncoder_default :: "pyval \<Rightarrow> pyexn + pyval" where
  "JSONEncoder_default obj = Inl (TypeError ''Object is not JSON serializable'')"

definition SafeJSONEncoder_default :: "env \<Rightarrow> pyval \<Rightarrow> pyexn + pyval" where
  "SafeJSONEncoder_default env obj =
     (case JSONEncoder_default obj of
        Inr v \<Rightarrow> Inr v
      | Inl e \<Rightarrow>
          if exn_class e = ''TypeError'' then
            (if hasattr obj ''dict'' \<and> callable (getattr_or obj ''dict'' PNone)
             then bindE (getattr obj ''dict'') call0
             else Inr (PStr (py_repr env obj)))
          else Inl e)"

definition encoder_default :: "env \<Rightarrow> encoder_cls \<Rightarrow> pyval \<Rightarrow> pyexn + pyval" where
  "encoder_default env cls obj =
     (case cls of
        JSONEncoder \<Rightarrow> JSONEncoder_default obj
      | SafeJSONEncoder \<Rightarrow> SafeJSONEncoder_default env obj)"

text \<open>
  The encoding loop of the \<^verbatim>\<open>json\<close> module: the JSON types are written directly, lists and
  dictionaries element by element with the separators \<^verbatim>\<open>", "\<close> and \<^verbatim>\<open>": "\<close>, and any other
  value is handed to the encoder's \<^verbatim>\<open>default\<close>, whose result is encoded in its place.  The
  recursion ends because \<^verbatim>\<open>default\<close> returns a string or a value stored inside the object.
\<close>

fun join :: "string \<Rightarrow> string list \<Rightarrow> string" where
  "join sep [] = []"
| "join sep [s] = s"
| "join sep (s # t # ss) = s @ sep @ join sep (t # ss)"

lemma bindE_cong [fundef_cong]:
  "m = m' \<Longrightarrow> (\<And>a. m' = Inr a \<Longrightarrow> f a = f' a) \<Longrightarrow> bindE m f = bindE m' f'"
  by (cases m') (simp_all add: bindE_def)

lemma size_map_of:
  "map_of kvs n = Some v \<Longrightarrow> size (v::pyval) < Suc (size_list (size_prod (\<lambda>x. 0) size) kvs)"
  by (induction kvs) (auto split: if_splits)

lemma size_getattr: "getattr obj n = Inr m \<Longrightarrow> size m < size obj"
  by (cases obj) (auto split: option.splits dest: size_map_of)

lemma size_encoder_default:
  assumes "encoder_default env cls obj = Inr v" and "size obj \<noteq> 0"
  shows "size v < size obj"
proof (cases cls)
  case JSONEncoder
  with assms show ?thesis by (simp add: encoder_default_def JSONEncoder_default_def)
next
  case SafeJSONEncoder
  show ?thesis
  proof (cases "hasattr obj ''dict'' \<and> callable (getattr_or obj ''dict'' PNone)")
    case True
    then obtain m where m: "getattr obj ''dict'' = Inr m"
      by (auto simp: hasattr_def split: sum.splits)
    with True assms SafeJSONEncoder have "call0 m = Inr v"
      by (simp add: encoder_default_def SafeJSONEncoder_default_def JSONEncoder_default_def
            TypeError_def bindE_def)
    then have "size v < size m" by (cases m) auto
    with size_getattr [OF m] show ?thesis by simp
  next
    case False
    with assms SafeJSONEncoder have "v = PStr (py_repr env obj)"
      by (auto simp add: encoder_default_def SafeJSONEncoder_default_def JSONEncoder_default_def TypeError_def)
    then show ?thesis using assms(2) by simp
  qed
qed

function json_encode :: "env \<Rightarrow> encoder_cls \<Rightarrow> pyval \<Rightarrow> pyexn + string"
  and json_encode_list :: "env \<Rightarrow> encoder_cls \<Rightarrow> pyval list \<Rightarrow> pyexn + string list"
  and json_encode_items :: "env \<Rightarrow> encoder_cls \<Rightarrow> (string \<times> pyval) list \<Rightarrow> pyexn + string list"
where
  "json_encode env cls PNone = Inr ''null''"
| "json_encode env cls (PBool b) = Inr (if b then ''true'' else ''false'')"
| "json_encode env cls (PInt i) = Inr (string_of_int i)"
| "json_encode env cls (PStr s) = Inr (encode_basestring env s)"
| "json_encode env cls (PList xs) =
     bindE (json_encode_list env cls xs) (\<lambda>ss. Inr (''['' @ join '', '' ss @ '']''))"
| "json_encode env cls (PTuple xs) =
     bindE (json_encode_list env cls xs) (\<lambda>ss. Inr (''['' @ join '', '' ss @ '']''))"
| "json_encode env cls (PDict kvs) =
     bindE (json_encode_items env cls kvs) (\<lambda>ss. Inr (''{'' @ join '', '' ss @ ''}''))"
| "json_encode env cls (PEnum c u) =
     bindE (encoder_default env cls (PEnum c u)) (json_encode env cls)"
| "json_encode env cls (PObj c cattrs attrs) =
     bindE (encoder_default env cls (PObj c cattrs attrs)) (json_encode env cls)"
| "json_encode env cls (PMethod r) =
     bindE (encoder_default env cls (PMethod r)) (json_encode env cls)"
| "json_encode_list env cls [] = Inr []"
| "json_encode_list env cls (x # xs) =
     bindE (json_encode env cls x)
       (\<lambda>s. bindE (json_encode_list env cls xs) (\<lambda>ss. Inr (s # ss)))"
| "json_encode_items env cls [] = Inr []"
| "json_encode_items env cls ((k, v) # rest) =
     bindE (json_encode env cls v)
       (\<lambda>s. bindE (json_encode_items env cls rest)
          (\<lambda>ss. Inr ((encode_basestring env k @ '': '' @ s) # ss)))"
  by pat_completeness auto
termination
  apply (relation "measure (\<lambda>x. case x of
            Inl (env, cls, v) \<Rightarrow> 2 * size v + 1
          | Inr (Inl (env, cls, xs)) \<Rightarrow> 2 * size_list size xs
          | Inr (Inr (env, cls, kvs)) \<Rightarrow> 2 * size_list (size_prod (\<lambda>x. 0) size) kvs)")
  apply (auto dest!: size_encoder_default)
  done

text \<open>\<^verbatim>\<open>json.dumps(v)\<close> and \<^verbatim>\<open>json.dumps(v, cls=SafeJSONEncoder)\<close>.\<close>

definition json_dumps :: "env \<Rightarrow> pyval \<Rightarrow> pyexn + string" where
  "json_dumps env v = json_encode env JSONEncoder v"

definition safe_encode :: "env \<Rightarrow> pyval \<Rightarrow> pyexn + string" where
  "safe_encode env v = json_encode env SafeJSONEncoder v"

text \<open>
  The exceptions of the bound methods stored anywhere inside a value: the only exceptions
  the safe encoder can meet.
\<close>

fun method_failures :: "pyval \<Rightarrow> pyexn list"
  and method_failures_list :: "pyval list \<Rightarrow> pyexn list"
  and method_failures_items :: "(string \<times> pyval) list \<Rightarrow> pyexn list"
where
  "method_failures PNone = []"
| "method_failures (PBool b) = []"
| "method_failures (PInt i) = []"
| "method_failures (PStr s) = []"
| "method_failures (PList xs) = method_failures_list xs"
| "method_failures (PTuple xs) = method_failures_list xs"
| "method_failures (PDict kvs) = method_failures_items kvs"
| "method_failures (PEnum c u) = method_failures u"
| "method_failures (PObj c cattrs attrs) = method_failures_items cattrs @ method_failures_items attrs"
| "method_failures (PMethod (Inl e)) = [e]"
| "method_failures (PMethod (Inr v)) = method_failures v"
| "method_failures_list [] = []"
| "method_failures_list (x # xs) = method_failures x @ method_failures_list xs"
| "method_failures_items [] = []"
| "method_failures_items ((k, v) # rest) = method_failures v @ method_failures_items rest"

section \<open>Argument binding\<close>

text \<open>
  \<^verbatim>\<open>inspect.signature(method)\<close> is a list of parameters, each with its name, its kind and
  its default, if any.  Positional-only parameters are not modelled.
\<close>

datatype param_kind = POSITIONAL_OR_KEYWORD | VAR_POSITIONAL | KEYWORD_ONLY | VAR_KEYWORD

record param =
  param_name :: string
  param_kind :: param_kind
  param_default :: "pyval option"

text \<open>
  \<^verbatim>\<open>Signature.bind\<close> first consumes the positional arguments along the parameters
  (\<open>bind_positional\<close>, which returns the arguments bound so far and the parameters left),
  then looks the remaining parameters up among the keyword arguments (\<open>bind_keywords\<close>), and
  last gives the keyword arguments nobody claimed to the \<^verbatim>\<open>**kwargs\<close> parameter, raising
  \<^verbatim>\<open>TypeError\<close> when there is none.  The bound arguments are in signature order.
\<close>

fun bind_positional ::
  "param list \<Rightarrow> pyval list \<Rightarrow> pydict \<Rightarrow> pydict \<Rightarrow> pyexn + (pydict \<times> param list)" where
  "bind_positional [] [] kwargs arguments = Inr (arguments, [])"
| "bind_positional (p # ps) [] kwargs arguments =
     (if param_kind p = VAR_POSITIONAL then Inr (arguments, ps)
      else if map_of kwargs (param_name p) \<noteq> None then Inr (arguments, p # ps)
      else if param_kind p = VAR_KEYWORD \<or> param_default p \<noteq> None then Inr (arguments, p # ps)
      else Inl (TypeError ''missing a required argument''))"
| "bind_positional [] (arg_val # arg_vals) kwargs arguments =
     Inl (TypeError ''too many positional arguments'')"
| "bind_positional (p # ps) (arg_val # arg_vals) kwargs arguments =
     (if param_kind p = VAR_KEYWORD \<or> param_kind p = KEYWORD_ONLY
      then Inl (TypeError ''too many positional arguments'')
      else if param_kind p = VAR_POSITIONAL
      then Inr (dict_set (param_name p) (PTuple (arg_val # arg_vals)) arguments, ps)
      else if map_of kwargs (param_name p) \<noteq> None
      then Inl (TypeError ''multiple values for argument'')
      else bind_positional ps arg_vals kwargs (dict_set (param_name p) arg_val arguments))"

fun bind_keywords ::
  "param list \<Rightarrow> pydict \<Rightarrow> pydict \<Rightarrow> param option \<Rightarrow> pyexn + (pydict \<times> pydict \<times> param option)" where
  "bind_keywords [] kwargs arguments kwargs_param = Inr (arguments, kwargs, kwargs_param)"
| "bind_keywords (p # ps) kwargs arguments kwargs_param =
     (if param_kind p = VAR_KEYWORD then bind_keywords ps kwargs arguments (Some p)
      else if param_kind p = VAR_POSITIONAL then bind_keywords ps kwargs arguments kwargs_param
      else case map_of kwargs (param_name p) of
             None \<Rightarrow>
               if param_default p = None then Inl (TypeError ''missing a required argument'')
               else bind_keywords ps kwargs arguments kwargs_param
           | Some arg_val \<Rightarrow>
               bind_keywords ps (AList.delete (param_name p) kwargs)
                 (dict_set (param_name p) arg_val arguments) kwargs_param)"

definition signature_bind :: "param list \<Rightarrow> pyval list \<Rightarrow> pydict \<Rightarrow> pyexn + pydict" where
  "signature_bind params args kwargs =
     bindE (bind_positional params args kwargs [])
       (\<lambda>(arguments, rest).
          bindE (bind_keywords rest kwargs arguments None)
            (\<lambda>(arguments, kwargs', kwargs_param).
               if kwargs' \<noteq> [] then
                 (case kwargs_param of
                    Some p \<Rightarrow> Inr (dict_set (param_name p) (PDict kwargs') arguments)
                  | None \<Rightarrow> Inl (TypeError ''got an unexpected keyword argument''))
               else Inr arguments))"

text \<open>\<^verbatim>\<open>BoundArguments.apply_defaults\<close>: the arguments in signature order, completed.\<close>

fun apply_defaults :: "param list \<Rightarrow> pydict \<Rightarrow> pydict" where
  "apply_defaults [] arguments = []"
| "apply_defaults (p # ps) arguments =
     (case map_of arguments (param_name p) of
        Some v \<Rightarrow> (param_name p, v) # apply_defaults ps arguments
      | None \<Rightarrow>
          (case param_default p of
             Some d \<Rightarrow> (param_name p, d) # apply_defaults ps arguments
           | None \<Rightarrow>
               if param_kind p = VAR_POSITIONAL then (param_name p, PTuple []) # apply_defaults ps arguments
               else if param_kind p = VAR_KEYWORD then (param_name p, PDict []) # apply_defaults ps arguments
               else apply_defaults ps arguments))"

text \<open>The unpacking \<^verbatim>\<open>**v\<close> inside a dictionary display or a call.\<close>

fun mapping_unpack :: "pyval \<Rightarrow> pyexn + pydict" where
  "mapping_unpack (PDict kvs) = Inr kvs"
| "mapping_unpack v = Inl (TypeError ''argument after ** must be a mapping'')"

text \<open>
  \<^verbatim>\<open>_get_input_value(method, *args, **kwargs)\<close>, on the signature of the method.
\<close>

definition get_input_value :: "env \<Rightarrow> param list \<Rightarrow> pyval list \<Rightarrow> pydict \<Rightarrow> pyexn + string" where
  "get_input_value env method_signature args kwargs =
     (let first_parameter_name =
            (case method_signature of [] \<Rightarrow> None | p # ps \<Rightarrow> Some (param_name p));
          signature_contains_self_parameter = (first_parameter_name \<in> set [Some ''self''])
      in bindE (signature_bind method_signature
                  ((if signature_contains_self_parameter then [PNone] else []) @ args) kwargs)
           (\<lambda>arguments.
              bindE (mapping_unpack (dict_get arguments ''kwargs'' (PDict [])))
                (\<lambda>extra.
                   safe_json_dumps env (Some SafeJSONEncoder)
                     (PDict (dict_update
                        (filter (\<lambda>(argument_name, argument_value).
                                   argument_name \<notin> set [''self'', ''kwargs'']) arguments)
                        extra)))))"

text \<open>\<^verbatim>\<open>_bind_arguments(method, *args, **kwargs)\<close>.\<close>

definition bind_arguments :: "param list \<Rightarrow> pyval list \<Rightarrow> pydict \<Rightarrow> pyexn + pydict" where
  "bind_arguments method_signature args kwargs =
     bindE (signature_bind method_signature args kwargs)
       (\<lambda>arguments. Inr (apply_defaults method_signature arguments))"

text \<open>
  The keyword arguments a callee receives from the call \<^verbatim>\<open>f(k1=v1, ..., **m)\<close>: the direct
  keywords followed by the entries of \<open>m\<close>; a key given twice is a \<^verbatim>\<open>TypeError\<close>.
\<close>

definition call_keywords :: "pydict \<Rightarrow> pyval \<Rightarrow> pyexn + pydict" where
  "call_keywords direct m =
     bindE (mapping_unpack m)
       (\<lambda>kvs. if list_ex (\<lambda>(k, v). map_of direct k \<noteq> None) kvs
              then Inl (TypeError ''got multiple values for keyword argument'')
              else Inr (direct @ kvs))"


section \<open>Spans and intercepted calls\<close>

text \<open>
  Modelled from the spec: the semantic-convention constants of
  \<^verbatim>\<open>openinference.semconv.trace\<close>, which the file imports and which are not part of the
  sources at hand.  The attribute keys are the dotted names of the convention (the spec
  names \<^verbatim>\<open>llm.input_messages.0.message.role\<close>), the span kinds and the mime type are the
  enumeration values.
\<close>

abbreviation INPUT_MIME_TYPE :: string where "INPUT_MIME_TYPE \<equiv> ''input.mime_type''"
abbreviation INPUT_VALUE :: string where "INPUT_VALUE \<equiv> ''input.value''"
abbreviation LLM_INPUT_MESSAGES :: string where "LLM_INPUT_MESSAGES \<equiv> ''llm.input_messages''"
abbreviation LLM_INVOCATION_PARAMETERS :: string where
  "LLM_INVOCATION_PARAMETERS \<equiv> ''llm.invocation_parameters''"
abbreviation LLM_MODEL_NAME :: string where "LLM_MODEL_NAME \<equiv> ''llm.model_name''"
abbreviation LLM_OUTPUT_MESSAGES :: string where "LLM_OUTPUT_MESSAGES \<equiv> ''llm.output_messages''"
abbreviation LLM_TOKEN_COUNT_COMPLETION :: string where
  "LLM_TOKEN_COUNT_COMPLETION \<equiv> ''llm.token_count.completion''"
abbreviation LLM_TOKEN_COUNT_PROMPT :: string where
  "LLM_TOKEN_COUNT_PROMPT \<equiv> ''llm.token_count.prompt''"
abbreviation LLM_TOKEN_COUNT_TOTAL :: string where
  "LLM_TOKEN_COUNT_TOTAL \<equiv> ''llm.token_count.total''"
abbreviation LLM_TOOLS :: string where "LLM_TOOLS \<equiv> ''llm.tools''"
abbreviation OPENINFERENCE_SPAN_KIND :: string where
  "OPENINFERENCE_SPAN_KIND \<equiv> ''openinference.span.kind''"
abbreviation OUTPUT_MIME_TYPE :: string where "OUTPUT_MIME_TYPE \<equiv> ''output.mime_type''"
abbreviation OUTPUT_VALUE :: string where "OUTPUT_VALUE \<equiv> ''output.value''"
abbreviation MESSAGE_CONTENT :: string where "MESSAGE_CONTENT \<equiv> ''message.content''"
abbreviation MESSAGE_ROLE :: string where "MESSAGE_ROLE \<equiv> ''message.role''"
abbreviation JSON :: string where "JSON \<equiv> ''application/json''"
abbreviation AGENT :: string where "AGENT \<equiv> ''AGENT''"
abbreviation CHAIN :: string where "CHAIN \<equiv> ''CHAIN''"
abbreviation LLM :: string where "LLM \<equiv> ''LLM''"
abbreviation TOOL :: string where "TOOL \<equiv> ''TOOL''"
abbreviation TOOL_JSON_SCHEMA :: string where "TOOL_JSON_SCHEMA \<equiv> ''tool.json_schema''"
abbreviation TOOL_CALL_FUNCTION_ARGUMENTS_JSON :: string where
  "TOOL_CALL_FUNCTION_ARGUMENTS_JSON \<equiv> ''tool_call.function.arguments''"
abbreviation TOOL_CALL_FUNCTION_NAME :: string where
  "TOOL_CALL_FUNCTION_NAME \<equiv> ''tool_call.function.name''"

text \<open>
  A wrapper acts on the world through the span it opens and through the wrapped call.
  Both are recorded as a trace of events, in the order the source performs them:
  \<^verbatim>\<open>start_as_current_span\<close>, \<^verbatim>\<open>set_attribute\<close>, \<^verbatim>\<open>set_attributes\<close>, \<^verbatim>\<open>set_status\<close>,
  \<^verbatim>\<open>record_exception\<close>, the end of the \<^verbatim>\<open>with\<close> block, and the invocation
  \<^verbatim>\<open>wrapped(*args, **kwargs)\<close>.  A computation is its trace together with its outcome.
\<close>

datatype status = UNSET | OK | ERROR string

datatype event =
    StartSpan string pydict
  | SetAttribute string pyval
  | SetAttributes pydict
  | SetStatus status
  | RecordException pyexn
  | EndSpan
  | CallWrapped "pyval list" pydict

type_synonym 'a comp = "event list \<times> (pyexn + 'a)"

definition ret :: "'a \<Rightarrow> 'a comp" where
  "ret x = ([], Inr x)"

definition throw :: "pyexn \<Rightarrow> 'a comp" where
  "throw e = ([], Inl e)"

definition lift :: "pyexn + 'a \<Rightarrow> 'a comp" where
  "lift r = ([], r)"

definition emit :: "event \<Rightarrow> unit comp" where
  "emit ev = ([ev], Inr ())"

definition andthen :: "'a comp \<Rightarrow> ('a \<Rightarrow> 'b comp) \<Rightarrow> 'b comp" where
  "andthen m f =
     (case snd m of
        Inl e \<Rightarrow> (fst m, Inl e)
      | Inr a \<Rightarrow> (fst m @ fst (f a), snd (f a)))"

text \<open>
  \<^verbatim>\<open>try: body  except Exception as exception: handler\<close>.  The clause matches the
  exceptions that derive from \<^verbatim>\<open>Exception\<close>; any other passes through untouched.
\<close>

definition try_except_Exception :: "'a comp \<Rightarrow> (pyexn \<Rightarrow> 'a comp) \<Rightarrow> 'a comp" where
  "try_except_Exception body handler =
     (case snd body of
        Inl e \<Rightarrow>
          if is_Exception e then (fst body @ fst (handler e), snd (handler e)) else body
      | Inr a \<Rightarrow> body)"

text \<open>
  The handler all four wrappers share: \<^verbatim>\<open>span.set_status(Status(StatusCode.ERROR,
  str(exception)))\<close>, \<^verbatim>\<open>span.record_exception(exception)\<close>, \<^verbatim>\<open>raise\<close>.
\<close>

definition record_and_reraise :: "pyexn \<Rightarrow> 'a comp" where
  "record_and_reraise exception =
     andthen (emit (SetStatus (ERROR (exn_str exception))))
       (\<lambda>_. andthen (emit (RecordException exception)) (\<lambda>_. throw exception))"

text \<open>
  \<^verbatim>\<open>with tracer.start_as_current_span(name, attributes=..., record_exception=False,
  set_status_on_exception=False) as span: body\<close>.  Every wrapper passes both flags as
  \<^verbatim>\<open>False\<close>, so the context manager itself only ends the span, also when the body raises.
\<close>

definition start_as_current_span :: "string \<Rightarrow> pydict \<Rightarrow> 'a comp \<Rightarrow> 'a comp" where
  "start_as_current_span name attributes body =
     (StartSpan name attributes # fst body @ [EndSpan], snd body)"

text \<open>
  The wrapped callable: its \<^verbatim>\<open>__name__\<close>, its signature, and what a call does.  The call
  may mutate the instance it is bound to and the objects passed to it, and the wrappers read
  both afterwards; so a call yields its outcome together with the instance and the
  positional arguments as they are after the call.
\<close>

record call_effect =
  outcome :: "pyexn + pyval"
  instance_after :: pyval
  args_after :: "pyval list"

record wrapped_fn =
  fn_name :: string
  fn_signature :: "param list"
  fn_call :: "pyval \<Rightarrow> pyval list \<Rightarrow> pydict \<Rightarrow> call_effect"

definition call_wrapped ::
  "wrapped_fn \<Rightarrow> pyval \<Rightarrow> pyval list \<Rightarrow> pydict \<Rightarrow> (pyval \<times> pyval \<times> pyval list) comp" where
  "call_wrapped wrapped instance args kwargs =
     (let eff = fn_call wrapped instance args kwargs
      in ([CallWrapped args kwargs],
          case outcome eff of
            Inl e \<Rightarrow> Inl e
          | Inr r \<Rightarrow> Inr (r, instance_after eff, args_after eff)))"

text \<open>
  Modelled from the spec: the span capability (\<^verbatim>\<open>setAttribute\<close>, \<^verbatim>\<open>setAttributes\<close>,
  \<^verbatim>\<open>setStatus\<close>, \<^verbatim>\<open>recordException\<close>, scoped close) of the tracing SDK, which is outside
  the sources.  A span is a name, a key-value store in which the last write to a key wins, a
  status, the recorded exceptions and whether it has ended; \<open>final_span\<close> replays a trace.
\<close>

record span =
  span_name :: string
  span_attributes :: pydict
  span_status :: status
  span_events :: "pyexn list"
  span_ended :: bool

fun apply_event :: "event \<Rightarrow> span \<Rightarrow> span" where
  "apply_event (StartSpan n attrs) sp = sp\<lparr>span_name := n, span_attributes := attrs\<rparr>"
| "apply_event (SetAttribute k v) sp = sp\<lparr>span_attributes := dict_set k v (span_attributes sp)\<rparr>"
| "apply_event (SetAttributes kvs) sp = sp\<lparr>span_attributes := dict_update (span_attributes sp) kvs\<rparr>"
| "apply_event (SetStatus st) sp = sp\<lparr>span_status := st\<rparr>"
| "apply_event (RecordException e) sp = sp\<lparr>span_events := span_events sp @ [e]\<rparr>"
| "apply_event EndSpan sp = sp\<lparr>span_ended := True\<rparr>"
| "apply_event (CallWrapped args kwargs) sp = sp"

definition final_span :: "event list \<Rightarrow> span" where
  "final_span trace =
     fold apply_event trace
       \<lparr>span_name = [], span_attributes = [], span_status = UNSET, span_events = [],
        span_ended = False\<rparr>"

definition span_attr :: "event list \<Rightarrow> string \<Rightarrow> pyval option" where
  "span_attr trace k = map_of (span_attributes (final_span trace)) k"

text \<open>Further built-ins: iteration, \<^verbatim>\<open>d.keys()\<close>, \<^verbatim>\<open>d.values()\<close>, \<^verbatim>\<open>a + b\<close>.\<close>

fun py_list :: "pyval \<Rightarrow> pyexn + pyval list" where
  "py_list (PList xs) = Inr xs"
| "py_list (PTuple xs) = Inr xs"
| "py_list (PDict kvs) = Inr (map (\<lambda>(k, v). PStr k) kvs)"
| "py_list (PStr s) = Inr (map (\<lambda>c. PStr [c]) s)"
| "py_list v = Inl (TypeError ''object is not iterable'')"

fun dict_keys :: "pyval \<Rightarrow> pyexn + pyval list" where
  "dict_keys (PDict kvs) = Inr (map (\<lambda>(k, v). PStr k) kvs)"
| "dict_keys v = bindE (bindE (getattr v ''keys'') call0) py_list"

fun dict_values :: "pyval \<Rightarrow> pyexn + pyval list" where
  "dict_values (PDict kvs) = Inr (map snd kvs)"
| "dict_values v = bindE (bindE (getattr v ''values'') call0) py_list"

fun int_of :: "pyval \<Rightarrow> int option" where
  "int_of (PInt i) = Some i"
| "int_of (PBool b) = Some (if b then 1 else 0)"
| "int_of v = None"

definition add_numbers :: "pyval \<Rightarrow> pyval \<Rightarrow> pyexn + pyval" where
  "add_numbers a b =
     (case int_of a of
        None \<Rightarrow> Inl (TypeError ''unsupported operand type(s) for +'')
      | Some i \<Rightarrow>
          (case int_of b of
             None \<Rightarrow> Inl (TypeError ''unsupported operand type(s) for +'')
           | Some j \<Rightarrow> Inr (PInt (i + j))))"

definition py_add :: "pyval \<Rightarrow> pyval \<Rightarrow> pyexn + pyval" where
  "py_add a b =
     (case a of
        PStr s \<Rightarrow> (case b of PStr t \<Rightarrow> Inr (PStr (s @ t)) | _ \<Rightarrow> add_numbers a b)
      | PList xs \<Rightarrow> (case b of PList ys \<Rightarrow> Inr (PList (xs @ ys)) | _ \<Rightarrow> add_numbers a b)
      | PTuple xs \<Rightarrow> (case b of PTuple ys \<Rightarrow> Inr (PTuple (xs @ ys)) | _ \<Rightarrow> add_numbers a b)
      | _ \<Rightarrow> add_numbers a b)"

fun mapE :: "('a \<Rightarrow> 'e + 'b) \<Rightarrow> 'a list \<Rightarrow> 'e + 'b list" where
  "mapE f [] = Inr []"
| "mapE f (x # xs) = bindE (f x) (\<lambda>y. bindE (mapE f xs) (\<lambda>ys. Inr (y # ys)))"

section \<open>The four wrappers\<close>

subsection \<open>Run wrapper\<close>

text \<open>
  One entry of the \<^verbatim>\<open>managed_agents\<close> summary.  The conditional expression binds weaker
  than \<^verbatim>\<open>+\<close>, so the whole model text is empty when the sub-model has no \<^verbatim>\<open>model_id\<close>;
  the tool names are those of the outer agent, as in the source.
\<close>

definition managed_agent_entry :: "env \<Rightarrow> pyval \<Rightarrow> pyval \<Rightarrow> pyexn + pyval" where
  "managed_agent_entry env agent managed_agent =
     bindE (getattr managed_agent ''name'') (\<lambda>name.
     bindE (getattr managed_agent ''description'') (\<lambda>description.
     bindE (getattr managed_agent ''additional_prompting'') (\<lambda>additional_prompting.
     bindE (bindE (getattr managed_agent ''agent'') (\<lambda>a. getattr a ''model'')) (\<lambda>sub_model.
     bindE (Inr (if hasattr sub_model ''model_id''
                 then class_name sub_model @ '' - ''
                        @ py_str env (getattr_or sub_model ''model_id'' PNone)
                 else [])) (\<lambda>model.
     bindE (bindE (getattr managed_agent ''agent'') (\<lambda>a. getattr a ''max_steps'')) (\<lambda>max_steps.
     bindE (bindE (getattr agent ''tools'') dict_keys) (\<lambda>tools_names.
       Inr (PDict [(''name'', name), (''description'', description),
                   (''additional_prompting'', additional_prompting),
                   (''model'', PStr model), (''max_steps'', max_steps),
                   (''tools_names'', PList tools_names)]))))))))"

text \<open>
  The statements of the \<^verbatim>\<open>with\<close> block before the \<^verbatim>\<open>try\<close>: they read the agent and set
  the input attributes one by one, so an attribute read that raises leaves the attributes
  set so far on the span.
\<close>

definition run_inputs :: "env \<Rightarrow> pyval \<Rightarrow> pydict \<Rightarrow> unit comp" where
  "run_inputs env agent kwargs =
     andthen (lift (getattr agent ''task'')) (\<lambda>task.
     andthen (ret (dict_get kwargs ''additional_args'' PNone)) (\<lambda>additional_args.
     andthen (emit (SetAttribute INPUT_VALUE task)) (\<lambda>_.
     andthen (emit (SetAttribute ''agent_name'' (PStr (py_str env (PStr (class_name agent)))))) (\<lambda>_.
     andthen (emit (SetAttribute ''task'' task)) (\<lambda>_.
     andthen (lift (if truthy additional_args then json_dumps env additional_args else Inr [])) (\<lambda>j.
     andthen (emit (SetAttribute ''additional_args'' (PStr j))) (\<lambda>_.
     andthen (lift (if truthy additional_args then json_dumps env additional_args else Inr [])) (\<lambda>j.
     andthen (emit (SetAttribute ''additional_args'' (PStr j))) (\<lambda>_.
     andthen (lift (getattr agent ''model'')) (\<lambda>model.
     andthen (ret (if hasattr model ''model_id''
                   then '' - '' @ py_str env (getattr_or model ''model_id'' PNone) else [])) (\<lambda>model_id.
     andthen (ret (class_name model)) (\<lambda>model_type.
     andthen (emit (SetAttribute ''model'' (PStr (model_type @ model_id)))) (\<lambda>_.
     andthen (lift (getattr agent ''max_steps'')) (\<lambda>max_steps.
     andthen (emit (SetAttribute ''max_steps'' max_steps)) (\<lambda>_.
     andthen (lift (bindE (getattr agent ''tools'') dict_keys)) (\<lambda>tools_names.
     andthen (emit (SetAttribute ''tools_names'' (PList tools_names))) (\<lambda>_.
     andthen (lift (bindE (bindE (getattr agent ''managed_agents'') dict_values)
                      (mapE (managed_agent_entry env agent)))) (\<lambda>summary.
     andthen (lift (json_dumps env (PList summary))) (\<lambda>j.
       emit (SetAttribute ''managed_agents'' (PStr j)))))))))))))))))))))"

text \<open>
  The \<^verbatim>\<open>try\<close> block: the wrapped call and, still inside the \<^verbatim>\<open>try\<close>, the reads of the
  monitor's token counters on the agent as the call left it.
\<close>

definition run_call :: "env \<Rightarrow> wrapped_fn \<Rightarrow> pyval \<Rightarrow> pyval list \<Rightarrow> pydict \<Rightarrow> pyval comp" where
  "run_call env wrapped agent args kwargs =
     try_except_Exception
       (andthen (call_wrapped wrapped agent args kwargs) (\<lambda>(agent_output, agent', args').
        andthen (lift (bindE (getattr agent' ''monitor'')
                         (\<lambda>m. getattr m ''total_input_token_count''))) (\<lambda>n_in.
        andthen (emit (SetAttribute LLM_TOKEN_COUNT_PROMPT n_in)) (\<lambda>_.
        andthen (lift (bindE (getattr agent' ''monitor'')
                         (\<lambda>m. getattr m ''total_output_token_count''))) (\<lambda>n_out.
        andthen (emit (SetAttribute LLM_TOKEN_COUNT_COMPLETION n_out)) (\<lambda>_.
        andthen (lift (bindE (bindE (getattr agent' ''monitor'')
                                (\<lambda>m. getattr m ''total_input_token_count'')) (\<lambda>a.
                       bindE (bindE (getattr agent' ''monitor'')
                                (\<lambda>m. getattr m ''total_output_token_count'')) (\<lambda>b.
                         py_add a b)))) (\<lambda>total.
        andthen (emit (SetAttribute LLM_TOKEN_COUNT_TOTAL total)) (\<lambda>_.
          ret agent_output))))))))
       record_and_reraise"

definition RunWrapper :: "env \<Rightarrow> wrapped_fn \<Rightarrow> pyval \<Rightarrow> pyval list \<Rightarrow> pydict \<Rightarrow> pyval comp" where
  "RunWrapper env wrapped instance args kwargs =
     (if suppress_instrumentation env
      then andthen (call_wrapped wrapped instance args kwargs) (\<lambda>(r, instance', args'). ret r)
      else
        andthen (ret (class_name instance @ ''.run'')) (\<lambda>name.
        andthen (lift (get_input_value env (fn_signature wrapped) args kwargs)) (\<lambda>input_value.
        andthen (lift (flatten (PDict [(OPENINFERENCE_SPAN_KIND, PStr AGENT),
                                       (INPUT_VALUE, PStr input_value)]))) (\<lambda>attributes.
          start_as_current_span name (py_dict attributes)
            (andthen (run_inputs env instance kwargs) (\<lambda>_.
             andthen (run_call env wrapped instance args kwargs) (\<lambda>agent_output.
             andthen (emit (SetStatus OK)) (\<lambda>_.
             andthen (emit (SetAttribute OUTPUT_VALUE (PStr (py_str env agent_output)))) (\<lambda>_.
             andthen (emit (SetAttributes (py_dict (attributes_from_context env)))) (\<lambda>_.
               ret agent_output))))))))))"

subsection \<open>Step wrapper\<close>

text \<open>
  The span name reads \<^verbatim>\<open>agent.step_number\<close> before the span exists.  The \<^verbatim>\<open>try\<close> block
  holds the wrapped call, the optional final answer and the read \<^verbatim>\<open>args[0]\<close>; the step log
  is the first positional argument as the call left it.
\<close>

definition step_call ::
  "wrapped_fn \<Rightarrow> pyval \<Rightarrow> pyval list \<Rightarrow> pydict \<Rightarrow> (pyval \<times> pyval) comp" where
  "step_call wrapped instance args kwargs =
     try_except_Exception
       (andthen (call_wrapped wrapped instance args kwargs) (\<lambda>(result, instance', args').
        andthen (if result \<noteq> PNone then emit (SetAttribute ''Final answer'' result) else ret ()) (\<lambda>_.
        andthen (lift (case args' of
                         [] \<Rightarrow> Inl (IndexError ''tuple index out of range'')
                       | step_log # rest \<Rightarrow> Inr step_log)) (\<lambda>step_log.
          ret (result, step_log)))))
       record_and_reraise"

definition StepWrapper :: "env \<Rightarrow> wrapped_fn \<Rightarrow> pyval \<Rightarrow> pyval list \<Rightarrow> pydict \<Rightarrow> pyval comp" where
  "StepWrapper env wrapped instance args kwargs =
     (if suppress_instrumentation env
      then andthen (call_wrapped wrapped instance args kwargs) (\<lambda>(r, instance', args'). ret r)
      else
        andthen (lift (getattr instance ''step_number'')) (\<lambda>step_number.
          start_as_current_span (''Step '' @ py_str env step_number)
            [(OPENINFERENCE_SPAN_KIND, PStr CHAIN)]
            (andthen (step_call wrapped instance args kwargs) (\<lambda>(result, step_log).
             andthen (lift (getattr step_log ''error'')) (\<lambda>error.
             andthen (if error \<noteq> PNone
                      then emit (SetAttribute ''Error'' (PStr (py_str env error)))
                      else ret ()) (\<lambda>_.
             andthen (lift (getattr step_log ''observations'')) (\<lambda>observations.
             andthen (emit (SetAttribute ''Observations'' observations)) (\<lambda>_.
             andthen (emit (SetStatus OK)) (\<lambda>_.
             andthen (lift (getattr step_log ''observations'')) (\<lambda>observations.
             andthen (emit (SetAttribute OUTPUT_VALUE observations)) (\<lambda>_.
             andthen (emit (SetAttributes (py_dict (attributes_from_context env)))) (\<lambda>_.
               ret result))))))))))))"

subsection \<open>Model wrapper\<close>

definition llm_input_messages :: "pydict \<Rightarrow> (string \<times> pyval) list" where
  "llm_input_messages arguments =
     (case dict_get arguments ''prompt'' PNone of
        PStr prompt \<Rightarrow>
          [(LLM_INPUT_MESSAGES @ ''.0.'' @ MESSAGE_ROLE, PStr ''user''),
           (LLM_INPUT_MESSAGES @ ''.0.'' @ MESSAGE_CONTENT, PStr prompt)]
      | _ \<Rightarrow>
          (case dict_get arguments ''messages'' PNone of
             PList messages \<Rightarrow>
               concat (map (\<lambda>(i, message).
                  case message of
                    PDict m \<Rightarrow>
                      (if dict_get m ''role'' PNone \<noteq> PNone
                       then [(LLM_INPUT_MESSAGES @ ''.'' @ string_of_nat i @ ''.'' @ MESSAGE_ROLE,
                              dict_get m ''role'' PNone)]
                       else [])
                      @ (if dict_get m ''content'' PNone \<noteq> PNone
                         then [(LLM_INPUT_MESSAGES @ ''.'' @ string_of_nat i @ ''.'' @ MESSAGE_CONTENT,
                                dict_get m ''content'' PNone)]
                         else [])
                  | _ \<Rightarrow> [])
                 (enumerate 0 messages))
           | _ \<Rightarrow> []))"

definition llm_output_messages :: "pyval \<Rightarrow> (string \<times> pyval) list" where
  "llm_output_messages output_message =
     (if getattr_or output_message ''role'' PNone \<noteq> PNone
      then [(LLM_OUTPUT_MESSAGES @ ''.0.'' @ MESSAGE_ROLE, getattr_or output_message ''role'' PNone)]
      else [])
     @ (if getattr_or output_message ''content'' PNone \<noteq> PNone
        then [(LLM_OUTPUT_MESSAGES @ ''.0.'' @ MESSAGE_CONTENT,
               getattr_or output_message ''content'' PNone)]
        else [])"

definition output_value_and_mime_type :: "pyval \<Rightarrow> pyexn + (string \<times> pyval) list" where
  "output_value_and_mime_type output =
     bindE (bindE (getattr output ''model_dump_json'') call0)
       (\<lambda>j. Inr [(OUTPUT_MIME_TYPE, PStr JSON), (OUTPUT_VALUE, j)])"

definition llm_invocation_parameters :: "env \<Rightarrow> pyval \<Rightarrow> pydict \<Rightarrow> pyexn + (string \<times> pyval) list" where
  "llm_invocation_parameters env model arguments =
     (let model_kwargs = (case getattr_or model ''kwargs'' (PDict []) of PDict d \<Rightarrow> d | _ \<Rightarrow> []);
          kwargs = (case dict_get arguments ''kwargs'' PNone of PDict d \<Rightarrow> d | _ \<Rightarrow> [])
      in bindE (safe_json_dumps env None (PDict (dict_update model_kwargs kwargs)))
           (\<lambda>j. Inr [(LLM_INVOCATION_PARAMETERS, PStr j)]))"

definition llm_tools :: "env \<Rightarrow> pyval \<Rightarrow> pyexn + (string \<times> pyval) list" where
  "llm_tools env tools_to_call_from =
     (case tools_to_call_from of
        PList tools \<Rightarrow>
          bindE (mapE (\<lambda>(tool_index, tool).
                   if is_Tool env tool
                   then bindE (get_json_schema env tool) (\<lambda>schema.
                        bindE (safe_json_dumps env None schema) (\<lambda>j.
                          Inr [(LLM_TOOLS @ ''.'' @ string_of_nat tool_index @ ''.'' @ TOOL_JSON_SCHEMA,
                                PStr j)]))
                   else Inr [])
                 (enumerate 0 tools))
            (\<lambda>rs. Inr (concat rs))
      | _ \<Rightarrow> Inr [])"

definition input_value_and_mime_type :: "env \<Rightarrow> pydict \<Rightarrow> pyexn + (string \<times> pyval) list" where
  "input_value_and_mime_type env arguments =
     bindE (safe_json_dumps env None (PDict arguments))
       (\<lambda>j. Inr [(INPUT_MIME_TYPE, PStr JSON), (INPUT_VALUE, PStr j)])"

text \<open>
  The attributes the model span starts with: the dictionary display of the source, in which
  the ambient attributes are the last unpacking.
\<close>

definition model_start_attributes :: "env \<Rightarrow> pyval \<Rightarrow> pydict \<Rightarrow> pyexn + pydict" where
  "model_start_attributes env instance arguments =
     bindE (input_value_and_mime_type env arguments) (\<lambda>a1.
     bindE (llm_invocation_parameters env instance arguments) (\<lambda>a2.
       Inr (dict_update
             (dict_update
               (dict_update
                 (dict_update [(OPENINFERENCE_SPAN_KIND, PStr LLM)] (py_dict a1))
                 (py_dict a2))
               (py_dict (llm_input_messages arguments)))
             (py_dict (attributes_from_context env)))))"

text \<open>The statements after the \<^verbatim>\<open>try\<close> of the model wrapper, none of them guarded.\<close>

definition model_outputs :: "env \<Rightarrow> pyval \<Rightarrow> pydict \<Rightarrow> pyval \<Rightarrow> unit comp" where
  "model_outputs env model arguments output_message =
     andthen (lift (getattr model ''last_input_token_count'')) (\<lambda>n_in.
     andthen (emit (SetAttribute LLM_TOKEN_COUNT_PROMPT n_in)) (\<lambda>_.
     andthen (lift (getattr model ''last_output_token_count'')) (\<lambda>n_out.
     andthen (emit (SetAttribute LLM_TOKEN_COUNT_COMPLETION n_out)) (\<lambda>_.
     andthen (lift (getattr model ''model_id'')) (\<lambda>model_id.
     andthen (emit (SetAttribute LLM_MODEL_NAME model_id)) (\<lambda>_.
     andthen (lift (bindE (getattr model ''last_input_token_count'') (\<lambda>a.
                    bindE (getattr model ''last_output_token_count'') (\<lambda>b. py_add a b)))) (\<lambda>total.
     andthen (emit (SetAttribute LLM_TOKEN_COUNT_TOTAL total)) (\<lambda>_.
     andthen (emit (SetStatus OK)) (\<lambda>_.
     andthen (emit (SetAttribute OUTPUT_VALUE output_message)) (\<lambda>_.
     andthen (emit (SetAttributes (py_dict (llm_output_messages output_message)))) (\<lambda>_.
     andthen (lift (llm_tools env (dict_get arguments ''tools_to_call_from'' (PList [])))) (\<lambda>tools.
     andthen (emit (SetAttributes (py_dict tools))) (\<lambda>_.
     andthen (lift (output_value_and_mime_type output_message)) (\<lambda>out.
       emit (SetAttributes (py_dict out))))))))))))))))"

definition ModelWrapper :: "env \<Rightarrow> wrapped_fn \<Rightarrow> pyval \<Rightarrow> pyval list \<Rightarrow> pydict \<Rightarrow> pyval comp" where
  "ModelWrapper env wrapped instance args kwargs =
     (if suppress_instrumentation env
      then andthen (call_wrapped wrapped instance args kwargs) (\<lambda>(r, instance', args'). ret r)
      else
        andthen (lift (bind_arguments (fn_signature wrapped) args kwargs)) (\<lambda>arguments.
        andthen (ret (if truthy instance then class_name instance @ ''.__call__''
                      else fn_name wrapped)) (\<lambda>name.
        andthen (lift (model_start_attributes env instance arguments)) (\<lambda>attributes.
          start_as_current_span name attributes
            (andthen (try_except_Exception
                        (call_wrapped wrapped instance args kwargs)
                        record_and_reraise) (\<lambda>(output_message, model, args').
             andthen (model_outputs env model arguments output_message) (\<lambda>_.
               ret output_message)))))))"

subsection \<open>Tool wrapper\<close>

definition ToolCallWrapper :: "env \<Rightarrow> wrapped_fn \<Rightarrow> pyval \<Rightarrow> pyval list \<Rightarrow> pydict \<Rightarrow> pyval comp" where
  "ToolCallWrapper env wrapped instance args kwargs =
     (if suppress_instrumentation env
      then andthen (call_wrapped wrapped instance args kwargs) (\<lambda>(r, instance', args'). ret r)
      else
        andthen (ret (if truthy instance then class_name instance else fn_name wrapped)) (\<lambda>name.
        andthen (lift (get_input_value env (fn_signature wrapped) args kwargs)) (\<lambda>input_value.
        andthen (lift (flatten (PDict [(OPENINFERENCE_SPAN_KIND, PStr TOOL),
                                       (INPUT_VALUE, PStr input_value)]))) (\<lambda>attributes.
          start_as_current_span name (py_dict attributes)
            (andthen (lift (getattr_class instance ''name'')) (\<lambda>tool_name.
             andthen (emit (SetAttribute TOOL_CALL_FUNCTION_NAME (PStr (py_str env tool_name)))) (\<lambda>_.
             andthen (lift (json_dumps env (PDict kwargs))) (\<lambda>j.
             andthen (emit (SetAttribute TOOL_CALL_FUNCTION_ARGUMENTS_JSON (PStr j))) (\<lambda>_.
             andthen (try_except_Exception
                        (call_wrapped wrapped instance args kwargs)
                        record_and_reraise) (\<lambda>(response, instance', args').
             andthen (emit (SetStatus OK)) (\<lambda>_.
             andthen (emit (SetAttribute OUTPUT_VALUE response)) (\<lambda>_.
             andthen (emit (SetAttributes (py_dict (attributes_from_context env)))) (\<lambda>_.
               ret response)))))))))))))"

section \<open>A concrete environment and signature for the examples\<close>

text \<open>
  The examples below run the definitions on concrete inputs.  They use an environment in
  which \<^verbatim>\<open>str\<close> prints strings, integers, \<^verbatim>\<open>None\<close> and booleans as Python does and any other
  value as a bracketed class name, strings are quoted without escapes, and
  \<^verbatim>\<open>safe_json_dumps\<close> is the encoding loop above with the encoder class it is given.
\<close>

fun plain_str :: "pyval \<Rightarrow> string" where
  "plain_str (PStr s) = s"
| "plain_str (PInt i) = string_of_int i"
| "plain_str PNone = ''None''"
| "plain_str (PBool b) = (if b then ''True'' else ''False'')"
| "plain_str v = ''<'' @ class_name v @ '' object>''"

definition plain_env :: env where
  "plain_env =
     \<lparr>suppress_instrumentation = False,
      attributes_from_context = [],
      py_str = plain_str,
      py_repr = (\<lambda>v. ''<'' @ class_name v @ '' object>''),
      encode_basestring = (\<lambda>s. [CHR 0x22] @ s @ [CHR 0x22]),
      safe_json_dumps = (\<lambda>cls v. Inr []),
      is_Tool = (\<lambda>v. class_name v = ''Tool''),
      get_json_schema = (\<lambda>v. getattr v ''schema'')\<rparr>"

definition example_env :: env where
  "example_env =
     plain_env\<lparr>safe_json_dumps :=
       (\<lambda>cls v. json_encode plain_env (case cls of None \<Rightarrow> JSONEncoder | Some c \<Rightarrow> c) v)\<rparr>"

text \<open>The signature \<^verbatim>\<open>f(a, b)\<close>, with whatever defaults.\<close>

definition sig_a_b :: "pyval option \<Rightarrow> pyval option \<Rightarrow> param list" where
  "sig_a_b da db =
     [\<lparr>param_name = ''a'', param_kind = POSITIONAL_OR_KEYWORD, param_default = da\<rparr>,
      \<lparr>param_name = ''b'', param_kind = POSITIONAL_OR_KEYWORD, param_default = db\<rparr>]"

text \<open>
  A wrapped callable with a fixed outcome, which changes the instance and the positional
  arguments by the two given functions; a required parameter; and the tool of the spec's
  scenario, \<^verbatim>\<open>search(query="x")\<close>: an instance of \<^verbatim>\<open>SearchTool\<close> whose class attribute
  \<^verbatim>\<open>name\<close> is \<^verbatim>\<open>"search"\<close>, and its \<^verbatim>\<open>forward\<close> method.
\<close>

definition fixed_call ::
  "string \<Rightarrow> param list \<Rightarrow> pyexn + pyval \<Rightarrow> (pyval \<Rightarrow> pyval) \<Rightarrow> (pyval list \<Rightarrow> pyval list) \<Rightarrow> wrapped_fn" where
  "fixed_call name params r on_instance on_args =
     \<lparr>fn_name = name, fn_signature = params,
      fn_call = (\<lambda>i a k. \<lparr>outcome = r, instance_after = on_instance i, args_after = on_args a\<rparr>)\<rparr>"

definition required :: "string \<Rightarrow> param" where
  "required n = \<lparr>param_name = n, param_kind = POSITIONAL_OR_KEYWORD, param_default = None\<rparr>"

definition search_tool :: pyval where
  "search_tool = PObj ''SearchTool'' [(''name'', PStr ''search'')] []"

definition forward :: "pyexn + pyval \<Rightarrow> wrapped_fn" where
  "forward r = fixed_call ''forward'' [required ''query''] r id id"

text \<open>
  The other scenarios of the examples.  A chat model with its counters of the last call, the
  keyword arguments \<^verbatim>\<open>messages=[{"role": "user", "content": "hi"}]\<close>, and a chat message
  whose \<^verbatim>\<open>model_dump_json()\<close> returns \<^verbatim>\<open>{}\<close>; an agent with the task \<^verbatim>\<open>2+2\<close>, one tool,
  \<^verbatim>\<open>max_steps=5\<close> and a monitor with the given token counters, where the run leaves the
  counters at 10 and 5; an agent at step 1 whose step stores an error and an observation in
  the step log it is given; and an environment whose ambient context supplies an attribute
  under the key of the output value.
\<close>

definition chat_model :: pyval where
  "chat_model =
     PObj ''HfApiModel'' []
       [(''last_input_token_count'', PInt 3), (''last_output_token_count'', PInt 4),
        (''model_id'', PStr ''m''), (''kwargs'', PDict [])]"

definition chat_message :: pyval where
  "chat_message =
     PObj ''ChatMessage'' []
       [(''role'', PStr ''assistant''), (''content'', PStr ''hello''),
        (''model_dump_json'', PMethod (Inr (PStr ''{}'')))]"

definition model_call :: "pyexn + pyval \<Rightarrow> wrapped_fn" where
  "model_call r = fixed_call ''__call__'' [required ''messages''] r id id"

definition user_messages :: pydict where
  "user_messages = [(''messages'', PList [PDict [(''role'', PStr ''user''), (''content'', PStr ''hi'')]])]"

definition code_agent :: "int \<Rightarrow> int \<Rightarrow> pyval" where
  "code_agent n_in n_out =
     PObj ''CodeAgent'' []
       [(''task'', PStr ''2+2''), (''model'', chat_model), (''max_steps'', PInt 5),
        (''tools'', PDict [(''search'', search_tool)]), (''managed_agents'', PDict []),
        (''monitor'', PObj ''Monitor'' []
            [(''total_input_token_count'', PInt n_in), (''total_output_token_count'', PInt n_out)])]"

definition run_fn :: "pyexn + pyval \<Rightarrow> wrapped_fn" where
  "run_fn r = fixed_call ''run'' [required ''task''] r (\<lambda>i. code_agent 10 5) id"

definition step_agent :: pyval where
  "step_agent = PObj ''CodeAgent'' [] [(''step_number'', PInt 1)]"

definition action_step :: "pyval \<Rightarrow> pyval \<Rightarrow> pyval" where
  "action_step err obs = PObj ''ActionStep'' [] [(''error'', err), (''observations'', obs)]"

definition step_fn :: wrapped_fn where
  "step_fn =
     fixed_call ''step'' [required ''memory_step''] (Inr PNone) id
       (\<lambda>a. [action_step (PStr ''tool failed'') (PStr ''no output'')])"

definition ambient_env :: env where
  "ambient_env = example_env\<lparr>attributes_from_context := [(OUTPUT_VALUE, PStr ''ambient'')]\<rparr>"

section \<open>Predicates on traces\<close>

text \<open>
  A trace that only sets single attributes, and the events a wrapper appends when the
  wrapped call raises \<open>e\<close>: the invocation, followed by the error status and the recorded
  exception exactly when the handler matches.
\<close>

definition attribute_events :: "event list \<Rightarrow> bool" where
  "attribute_events t = (\<forall>ev \<in> set t. \<exists>k v. ev = SetAttribute k v)"

definition failed_trace :: "pyexn \<Rightarrow> pyval list \<Rightarrow> pydict \<Rightarrow> event list" where
  "failed_trace e a k =
     (if is_Exception e
      then [CallWrapped a k, SetStatus (ERROR (exn_str e)), RecordException e]
      else [CallWrapped a k])"

text \<open>
  An event that leaves the attribute under key \<open>k\<close> as it is: anything but starting the
  span or writing to \<open>k\<close>.
\<close>

fun keeps_key :: "string \<Rightarrow> event \<Rightarrow> bool" where
  "keeps_key k (SetAttribute k' v) = (k' \<noteq> k)"
| "keeps_key k (SetAttributes kvs) = (map_of kvs k = None)"
| "keeps_key k (StartSpan n a) = False"
| "keeps_key k (SetStatus st) = True"
| "keeps_key k (RecordException e) = True"
| "keeps_key k EndSpan = True"
| "keeps_key k (CallWrapped a kw) = True"

section \<open>Properties of the flattener\<close>

lemma bindE_Inr [simp]: "bindE (Inr a) f = f a"
  by (simp add: bindE_def)

lemma bindE_Inl [simp]: "bindE (Inl e) f = Inl e"
  by (simp add: bindE_def)

lemma bindE_assoc: "bindE (bindE m f) g = bindE m (\<lambda>a. bindE (f a) g)"
  by (cases m) simp_all

lemma flatten_items_append:
  "flatten_items (m1 @ m2) =
     bindE (flatten_items m1) (\<lambda>a. bindE (flatten_items m2) (\<lambda>b. Inr (a @ b)))"
proof (induction m1)
  case Nil
  show ?case by (cases "flatten_items m2") simp_all
next
  case (Cons kv m1)
  obtain key v where kv: "kv = (key, v)" by (cases kv)
  show ?case
    unfolding kv append_Cons flatten_items.simps Cons.IH
    by (auto simp: bindE_def split: sum.splits)
qed

lemma flatten_PDict [simp]: "flatten (PDict kvs) = flatten_items kvs"
  by (cases kvs) (simp_all add: flatten.simps)

lemma flatten_falsy: "\<not> truthy x \<Longrightarrow> flatten x = Inr []"
  by (simp add: flatten.simps)

lemma flatten_scalars [simp]:
  "flatten PNone = Inr []"
  "flatten (PBool b) = (if b then Inl (AttributeError ''items'') else Inr [])"
  "flatten (PInt i) = (if i = 0 then Inr [] else Inl (AttributeError ''items''))"
  "flatten (PStr s) = (if s = [] then Inr [] else Inl (AttributeError ''items''))"
  "flatten (PList xs) = (if xs = [] then Inr [] else Inl (AttributeError ''items''))"
  "flatten (PTuple xs) = (if xs = [] then Inr [] else Inl (AttributeError ''items''))"
  "flatten (PEnum c v) = Inl (AttributeError ''items'')"
  "flatten (PObj c cattrs attrs) = Inl (AttributeError ''items'')"
  "flatten (PMethod r) = Inl (AttributeError ''items'')"
  by (simp_all add: flatten.simps)

lemma flatten_truthy_scalar:
  "truthy x \<Longrightarrow> \<not> is_Mapping x \<Longrightarrow> flatten x = Inl (AttributeError ''items'')"
  by (cases x) (simp_all add: flatten.simps)

lemma flatten_error: "flatten v = Inl e \<Longrightarrow> e = AttributeError ''items''"
  and flatten_items_error: "flatten_items kvs = Inl e \<Longrightarrow> e = AttributeError ''items''"
  and flatten_seq_error: "flatten_seq k i xs = Inl e \<Longrightarrow> e = AttributeError ''items''"
  apply (induction v and kvs and k i xs arbitrary: e and e and e rule: flatten_flatten_items_flatten_seq.induct)
  apply (auto simp: bindE_def flatten.simps split: if_splits pyval.splits sum.splits)
  done

lemma flatten_seq_ok:
  "map flatten xs = map Inr rs \<Longrightarrow>
   flatten_seq k i xs =
     Inr (concat (map (\<lambda>(index, r). map (\<lambda>(sub_key, sub_value).
            (k @ ''.'' @ string_of_nat index @ ''.'' @ sub_key, sub_value)) r) (enumerate i rs)))"
proof (induction xs arbitrary: i rs)
  case Nil
  then show ?case by simp
next
  case (Cons x xs)
  then obtain r rs' where rs: "rs = r # rs'" and x: "flatten x = Inr r"
    and xs: "map flatten xs = map Inr rs'"
    by (cases rs) auto
  show ?case
    unfolding rs flatten_seq.simps x
    by (simp add: Cons.IH [OF xs])
qed

lemma flatten_seq_raises:
  "x \<in> set xs \<Longrightarrow> flatten x = Inl e \<Longrightarrow> flatten_seq k i xs = Inl (AttributeError ''items'')"
proof (induction xs arbitrary: i)
  case Nil
  then show ?case by simp
next
  case (Cons y ys)
  show ?case
  proof (cases "flatten y")
    case (Inl e')
    then show ?thesis
      using flatten_error [OF Inl] by simp
  next
    case (Inr r)
    with Cons have "flatten_seq k (Suc i) ys = Inl (AttributeError ''items'')"
      by auto
    with Inr show ?thesis by simp
  qed
qed

text \<open>
  Claim C5.  For every mapping, an entry whose value is \<^verbatim>\<open>None\<close> contributes nothing to
  the output of \<open>flatten\<close> (removing the entry leaves the output unchanged), and an entry
  whose value is a nested mapping contributes exactly the flattened entries of that
  sub-mapping, in their order, each key prefixed with the outer key and a dot.  The
  equations hold for the exception outcome as well.
\<close>

theorem flatten_absent_and_nested:
  "flatten (PDict (m1 @ (k, PNone) # m2)) = flatten (PDict (m1 @ m2))
   \<and> flatten (PDict (m1 @ (k, PDict sub) # m2)) =
       bindE (flatten (PDict m1)) (\<lambda>a.
       bindE (flatten (PDict sub)) (\<lambda>s.
       bindE (flatten (PDict m2)) (\<lambda>b.
         Inr (a @ map (\<lambda>(sub_key, sub_value). (k @ ''.'' @ sub_key, sub_value)) s @ b))))"
  unfolding flatten_PDict flatten_items_append
  by (auto simp: bindE_def split: sum.splits)

theorem flatten_absent_and_nested_witness:
  "flatten (PDict ([(''x'', PInt 1)] @ (''k'', PNone) # [(''y'', PInt 2)])) =
     Inr [(''x'', PInt 1), (''y'', PInt 2)]
   \<and> flatten (PDict ([(''x'', PInt 1)] @ (''k'', PDict [(''a'', PInt 3), (''n'', PNone)]) # [(''y'', PInt 2)])) =
     Inr [(''x'', PInt 1), (''k.a'', PInt 3), (''y'', PInt 2)]"
  using flatten_absent_and_nested [of "[(''x'', PInt 1)]" "''k''" "[(''y'', PInt 2)]" "[(''a'', PInt 3), (''n'', PNone)]"]
  by simp






section \<open>Properties of the safe encoder\<close>

lemma method_failures_map_of:
  "map_of kvs n = Some m \<Longrightarrow> set (method_failures m) \<subseteq> set (method_failures_items kvs)"
  by (induction kvs) (auto split: if_splits)

lemma method_failures_getattr:
  "getattr obj n = Inr m \<Longrightarrow> set (method_failures m) \<subseteq> set (method_failures obj)"
  by (cases obj) (auto split: option.splits dest: method_failures_map_of)

lemma safe_default_Inl:
  assumes "SafeJSONEncoder_default env obj = Inl e"
  shows "e \<in> set (method_failures obj)"
proof -
  from assms obtain m where m: "getattr obj ''dict'' = Inr m" and c: "call0 m = Inl e"
    by (auto simp: SafeJSONEncoder_default_def JSONEncoder_default_def TypeError_def hasattr_def
        bindE_def split: if_splits sum.splits)
  from c have "e \<in> set (method_failures m) \<or> \<not> callable m"
    by (cases m) (auto split: sum.splits)
  moreover from assms m have "callable m"
    by (auto simp: SafeJSONEncoder_default_def JSONEncoder_default_def TypeError_def getattr_or_def
        split: if_splits)
  ultimately show ?thesis using method_failures_getattr [OF m] by auto
qed

lemma safe_default_Inr:
  assumes "SafeJSONEncoder_default env obj = Inr v"
  shows "set (method_failures v) \<subseteq> set (method_failures obj)"
proof (cases "hasattr obj ''dict'' \<and> callable (getattr_or obj ''dict'' PNone)")
  case True
  with assms obtain m where m: "getattr obj ''dict'' = Inr m" and c: "call0 m = Inr v"
    by (auto simp: SafeJSONEncoder_default_def JSONEncoder_default_def TypeError_def hasattr_def
        bindE_def split: if_splits sum.splits)
  from c have "set (method_failures v) \<subseteq> set (method_failures m)"
    by (cases m) auto
  with method_failures_getattr [OF m] show ?thesis by auto
next
  case False
  with assms have "v = PStr (py_repr env obj)"
    by (auto simp: SafeJSONEncoder_default_def JSONEncoder_default_def TypeError_def)
  then show ?thesis by simp
qed

lemma default_step:
  assumes "bindE (encoder_default env SafeJSONEncoder obj) (json_encode env SafeJSONEncoder) = Inl e"
    and "\<And>a. encoder_default env SafeJSONEncoder obj = Inr a \<Longrightarrow>
          json_encode env SafeJSONEncoder a = Inl e \<Longrightarrow> e \<in> set (method_failures a)"
  shows "e \<in> set (method_failures obj)"
proof (cases "SafeJSONEncoder_default env obj")
  case (Inl e')
  with assms(1) have "e' = e" by (simp add: encoder_default_def)
  with Inl show ?thesis by (auto dest: safe_default_Inl)
next
  case (Inr a)
  with assms have "e \<in> set (method_failures a)" by (simp add: encoder_default_def)
  with safe_default_Inr [OF Inr] show ?thesis by auto
qed

lemma json_encode_failure:
  "cls = SafeJSONEncoder \<Longrightarrow> json_encode env cls v = Inl e \<Longrightarrow> e \<in> set (method_failures v)"
  "cls = SafeJSONEncoder \<Longrightarrow> json_encode_list env cls xs = Inl e \<Longrightarrow> e \<in> set (method_failures_list xs)"
  "cls = SafeJSONEncoder \<Longrightarrow> json_encode_items env cls kvs = Inl e \<Longrightarrow> e \<in> set (method_failures_items kvs)"
proof (induction env cls v and env cls xs and env cls kvs arbitrary: e and e and e
    rule: json_encode_json_encode_list_json_encode_items.induct)
  case (8 env cls c u)
  then show ?case using default_step [of env "PEnum c u" e] by simp
next
  case (9 env cls c cattrs attrs)
  then show ?case using default_step [of env "PObj c cattrs attrs" e] by simp
next
  case (10 env cls r)
  then show ?case using default_step [of env "PMethod r" e] by simp
qed (auto simp: bindE_def split: sum.splits)




section \<open>Properties of the argument normaliser\<close>





section \<open>Properties of the wrappers\<close>

subsection \<open>Computing with traces\<close>

lemma andthen_ret [simp]: "andthen (ret x) f = f x"
  by (simp add: andthen_def ret_def)

lemma andthen_lift_Inr [simp]: "andthen (lift (Inr x)) f = f x"
  by (simp add: andthen_def lift_def)

lemma andthen_lift_Inl [simp]: "andthen (lift (Inl e)) f = ([], Inl e)"
  by (simp add: andthen_def lift_def)

lemma andthen_emit [simp]: "andthen (emit ev) f = (ev # fst (f ()), snd (f ()))"
  by (simp add: andthen_def emit_def)

lemma andthen_throw [simp]: "andthen (throw e) f = ([], Inl e)"
  by (simp add: andthen_def throw_def)

lemma fst_ret [simp]: "fst (ret x) = []" and snd_ret [simp]: "snd (ret x) = Inr x"
  by (simp_all add: ret_def)

lemma fst_emit [simp]: "fst (emit ev) = [ev]" and snd_emit [simp]: "snd (emit ev) = Inr ()"
  by (simp_all add: emit_def)

lemma fst_lift [simp]: "fst (lift r) = []" and snd_lift [simp]: "snd (lift r) = r"
  by (simp_all add: lift_def)

lemma fst_throw [simp]: "fst (throw e) = []" and snd_throw [simp]: "snd (throw e) = Inl e"
  by (simp_all add: throw_def)

lemma andthen_pair_Inl [simp]: "andthen (t, Inl e) f = (t, Inl e)"
  by (simp add: andthen_def)

lemma andthen_pair_Inr [simp]: "andthen (t, Inr a) f = (t @ fst (f a), snd (f a))"
  by (simp add: andthen_def)

lemma andthen_Inl: "snd m = Inl e \<Longrightarrow> andthen m f = (fst m, Inl e)"
  by (simp add: andthen_def)

lemma andthen_Inr: "snd m = Inr a \<Longrightarrow> andthen m f = (fst m @ fst (f a), snd (f a))"
  by (simp add: andthen_def)

lemma record_and_reraise_eq [simp]:
  "record_and_reraise e = ([SetStatus (ERROR (exn_str e)), RecordException e], Inl e)"
  by (simp add: record_and_reraise_def)

lemma call_wrapped_Inl:
  "outcome (fn_call w i a k) = Inl e \<Longrightarrow> call_wrapped w i a k = ([CallWrapped a k], Inl e)"
  by (simp add: call_wrapped_def Let_def)

lemma call_wrapped_Inr:
  "outcome (fn_call w i a k) = Inr r \<Longrightarrow>
   call_wrapped w i a k =
     ([CallWrapped a k], Inr (r, instance_after (fn_call w i a k), args_after (fn_call w i a k)))"
  by (simp add: call_wrapped_def Let_def)

lemma suppressed_call:
  "andthen (call_wrapped w i a k) (\<lambda>(r, i', a'). ret r) = ([CallWrapped a k], outcome (fn_call w i a k))"
  by (cases "outcome (fn_call w i a k)") (simp_all add: call_wrapped_def Let_def andthen_def)

lemmas demo_defs = fixed_call_def required_def search_tool_def forward_def example_env_def
  plain_env_def

lemmas eval_defs = get_input_value_def signature_bind_def bind_arguments_def dict_set_def
  dict_get_def dict_update_def py_dict_def json_dumps_def string_of_int_def string_of_nat.simps
  digit_char_def start_as_current_span_def call_wrapped_def try_except_Exception_def
  final_span_def span_attr_def encoder_default_def SafeJSONEncoder_default_def
  JSONEncoder_default_def TypeError_def hasattr_def getattr_or_def AttributeError_def

subsection \<open>Suppression\<close>

text \<open>
  Claim C2.  In each of the four wrappers, when the suppression flag is set the whole
  interception is the wrapped call: the trace holds the invocation
  \<^verbatim>\<open>wrapped(*args, **kwargs)\<close> and nothing else (no span is started, and neither argument
  binding nor any attribute computation can contribute an event or an exception), and the
  outcome is the outcome of the wrapped call, be it a result or an exception.
\<close>

theorem suppressed_wrapper_is_the_call:
  assumes "suppress_instrumentation env"
    and "W \<in> {RunWrapper, StepWrapper, ModelWrapper, ToolCallWrapper}"
  shows "W env wrapped instance args kwargs =
           ([CallWrapped args kwargs], outcome (fn_call wrapped instance args kwargs))"
  using assms
  by (auto simp: RunWrapper_def StepWrapper_def ModelWrapper_def ToolCallWrapper_def suppressed_call)

theorem suppressed_wrapper_is_the_call_witness:
  "suppress_instrumentation (example_env\<lparr>suppress_instrumentation := True\<rparr>)
   \<and> ToolCallWrapper \<in> {RunWrapper, StepWrapper, ModelWrapper, ToolCallWrapper}
   \<and> ToolCallWrapper (example_env\<lparr>suppress_instrumentation := True\<rparr>)
         (fixed_call ''forward'' [] (Inr (PStr ''found'')) id id) search_tool []
         [(''query'', PStr ''x'')]
       = ([CallWrapped [] [(''query'', PStr ''x'')]], Inr (PStr ''found''))"
  using suppressed_wrapper_is_the_call [of "example_env\<lparr>suppress_instrumentation := True\<rparr>"
      ToolCallWrapper "fixed_call ''forward'' [] (Inr (PStr ''found'')) id id" search_tool "[]"
      "[(''query'', PStr ''x'')]"]
  by (simp add: demo_defs)

subsection \<open>A wrapped call that raises\<close>

lemma attribute_events_simps [simp]:
  "attribute_events []"
  "attribute_events (SetAttribute k v # t) = attribute_events t"
  "attribute_events (t @ u) = (attribute_events t \<and> attribute_events u)"
  by (auto simp: attribute_events_def)

lemma attribute_events_andthen:
  "attribute_events (fst m) \<Longrightarrow> (\<And>x. attribute_events (fst (f x))) \<Longrightarrow>
   attribute_events (fst (andthen m f))"
  by (cases "snd m") (simp_all add: andthen_def)

lemma attribute_events_no_call: "attribute_events t \<Longrightarrow> CallWrapped a k \<notin> set t"
  by (auto simp: attribute_events_def)

lemma attribute_events_run_inputs: "attribute_events (fst (run_inputs env agent kwargs))"
  unfolding run_inputs_def
  by (intro attribute_events_andthen) simp_all

lemma fold_attribute_events:
  "attribute_events t \<Longrightarrow>
   span_status (fold apply_event t sp) = span_status sp
   \<and> span_events (fold apply_event t sp) = span_events sp
   \<and> span_ended (fold apply_event t sp) = span_ended sp
   \<and> span_name (fold apply_event t sp) = span_name sp"
proof (induction t arbitrary: sp)
  case Nil
  show ?case by simp
next
  case (Cons ev t)
  then obtain k v where "ev = SetAttribute k v" and "attribute_events t"
    by (auto simp: attribute_events_def)
  with Cons.IH [of "apply_event ev sp"] show ?case by simp
qed

lemma final_span_failed:
  assumes "attribute_events pre"
  shows "span_status (final_span (StartSpan n a # pre @ [CallWrapped args kwargs, SetStatus st, RecordException e] @ [EndSpan])) = st"
    and "span_events (final_span (StartSpan n a # pre @ [CallWrapped args kwargs, SetStatus st, RecordException e] @ [EndSpan])) = [e]"
    and "span_ended (final_span (StartSpan n a # pre @ [CallWrapped args kwargs, SetStatus st, RecordException e] @ [EndSpan]))"
  using fold_attribute_events [OF assms]
  by (simp_all add: final_span_def)

lemma final_span_passed_through:
  assumes "attribute_events pre"
  shows "span_status (final_span (StartSpan n a # pre @ [CallWrapped args kwargs] @ [EndSpan])) = UNSET"
    and "span_events (final_span (StartSpan n a # pre @ [CallWrapped args kwargs] @ [EndSpan])) = []"
    and "span_ended (final_span (StartSpan n a # pre @ [CallWrapped args kwargs] @ [EndSpan]))"
  using fold_attribute_events [OF assms]
  by (simp_all add: final_span_def)

text \<open>The try block around a wrapped call that raises.\<close>

lemma try_call_raises:
  assumes "outcome (fn_call w i a k) = Inl e"
  shows "try_except_Exception (andthen (call_wrapped w i a k) f) record_and_reraise =
           (if is_Exception e
            then ([CallWrapped a k, SetStatus (ERROR (exn_str e)), RecordException e], Inl e)
            else ([CallWrapped a k], Inl e))"
    and "try_except_Exception (call_wrapped w i a k) record_and_reraise =
           (if is_Exception e
            then ([CallWrapped a k, SetStatus (ERROR (exn_str e)), RecordException e], Inl e)
            else ([CallWrapped a k], Inl e))"
  by (simp_all add: try_except_Exception_def call_wrapped_Inl [OF assms] andthen_def)

lemma wrapper_raises_shape:
  assumes "\<not> suppress_instrumentation env"
    and "W \<in> {RunWrapper, StepWrapper, ModelWrapper, ToolCallWrapper}"
    and "CallWrapped args kwargs \<in> set (fst (W env wrapped instance args kwargs))"
    and "outcome (fn_call wrapped instance args kwargs) = Inl e"
  shows "\<exists>n a pre. attribute_events pre \<and>
           W env wrapped instance args kwargs =
             (StartSpan n a # pre @ failed_trace e args kwargs @ [EndSpan], Inl e)"
proof -
  note tc = try_call_raises [OF assms(4)]
  consider "W = RunWrapper" | "W = StepWrapper" | "W = ModelWrapper" | "W = ToolCallWrapper"
    using assms(2) by auto
  then show ?thesis
  proof cases
    case 1
    obtain t r where ri: "run_inputs env instance kwargs = (t, r)"
      by (cases "run_inputs env instance kwargs")
    have pre_t: "attribute_events t"
      using attribute_events_run_inputs [of env "instance" kwargs] ri by simp
    show ?thesis
    proof (cases "get_input_value env (fn_signature wrapped) args kwargs")
      case (Inl e')
      with assms(1,3) 1 show ?thesis by (simp add: RunWrapper_def)
    next
      case (Inr iv)
      show ?thesis
      proof (cases r)
        case (Inl e')
        with assms(1,3) 1 Inr ri pre_t show ?thesis
          by (auto simp: RunWrapper_def start_as_current_span_def andthen_def
              dest: attribute_events_no_call)
      next
        case (Inr u)
        have rc: "run_call env wrapped instance args kwargs = (failed_trace e args kwargs, Inl e)"
          by (simp add: run_call_def tc failed_trace_def)
        have "RunWrapper env wrapped instance args kwargs =
                (StartSpan (class_name instance @ ''.run'')
                   (py_dict [(OPENINFERENCE_SPAN_KIND, PStr AGENT), (INPUT_VALUE, PStr iv)])
                   # t @ failed_trace e args kwargs @ [EndSpan], Inl e)"
          using assms(1) \<open>get_input_value env (fn_signature wrapped) args kwargs = Inr iv\<close> ri Inr
          by (simp add: RunWrapper_def start_as_current_span_def andthen_def rc)
        then show ?thesis
          unfolding 1 using pre_t
          by (intro exI [of _ "class_name instance @ ''.run''"]
              exI [of _ "py_dict [(OPENINFERENCE_SPAN_KIND, PStr AGENT), (INPUT_VALUE, PStr iv)]"]
              exI [of _ t]) simp
      qed
    qed
  next
    case 2
    show ?thesis
    proof (cases "getattr instance ''step_number''")
      case (Inl e')
      with assms(1,3) 2 show ?thesis by (simp add: StepWrapper_def)
    next
      case (Inr sn)
      have sc: "step_call wrapped instance args kwargs = (failed_trace e args kwargs, Inl e)"
        by (simp add: step_call_def tc failed_trace_def)
      have "StepWrapper env wrapped instance args kwargs =
              (StartSpan (''Step '' @ py_str env sn) [(OPENINFERENCE_SPAN_KIND, PStr CHAIN)]
                 # [] @ failed_trace e args kwargs @ [EndSpan], Inl e)"
        using assms(1) Inr by (simp add: StepWrapper_def start_as_current_span_def andthen_def sc)
      then show ?thesis
        unfolding 2
        by (intro exI [of _ "''Step '' @ py_str env sn"]
            exI [of _ "[(OPENINFERENCE_SPAN_KIND, PStr CHAIN)]"] exI [of _ "[]"]) simp
    qed
  next
    case 3
    show ?thesis
    proof (cases "bind_arguments (fn_signature wrapped) args kwargs")
      case (Inl e')
      with assms(1,3) 3 show ?thesis by (simp add: ModelWrapper_def)
    next
      case (Inr arguments)
      show ?thesis
      proof (cases "model_start_attributes env instance arguments")
        case (Inl e')
        with assms(1,3) 3 Inr show ?thesis by (simp add: ModelWrapper_def)
      next
        case (Inr attrs)
        have mc: "try_except_Exception (call_wrapped wrapped instance args kwargs) record_and_reraise
                    = (failed_trace e args kwargs, Inl e)"
          by (simp add: tc failed_trace_def)
        have "ModelWrapper env wrapped instance args kwargs =
                (StartSpan (if truthy instance then class_name instance @ ''.__call__''
                            else fn_name wrapped) attrs
                   # [] @ failed_trace e args kwargs @ [EndSpan], Inl e)"
          using assms(1) \<open>bind_arguments (fn_signature wrapped) args kwargs = Inr arguments\<close> Inr
          by (simp add: ModelWrapper_def start_as_current_span_def andthen_def mc)
        then show ?thesis
          unfolding 3
          by (intro exI [of _ "if truthy instance then class_name instance @ ''.__call__''
                            else fn_name wrapped"] exI [of _ attrs] exI [of _ "[]"]) simp
      qed
    qed
  next
    case 4
    show ?thesis
    proof (cases "get_input_value env (fn_signature wrapped) args kwargs")
      case (Inl e')
      with assms(1,3) 4 show ?thesis by (simp add: ToolCallWrapper_def)
    next
      case (Inr iv)
      note iv = Inr
      show ?thesis
      proof (cases "getattr_class instance ''name''")
        case (Inl e')
        with assms(1,3) 4 iv show ?thesis
          by (simp add: ToolCallWrapper_def start_as_current_span_def)
      next
        case (Inr tn)
        note tn = Inr
        show ?thesis
        proof (cases "json_dumps env (PDict kwargs)")
          case (Inl e')
          with assms(1,3) 4 iv tn show ?thesis
            by (simp add: ToolCallWrapper_def start_as_current_span_def)
        next
          case (Inr j)
          have mc: "try_except_Exception (call_wrapped wrapped instance args kwargs) record_and_reraise
                      = (failed_trace e args kwargs, Inl e)"
            by (simp add: tc failed_trace_def)
          have "ToolCallWrapper env wrapped instance args kwargs =
                  (StartSpan (if truthy instance then class_name instance else fn_name wrapped)
                     (py_dict [(OPENINFERENCE_SPAN_KIND, PStr TOOL), (INPUT_VALUE, PStr iv)])
                     # [SetAttribute TOOL_CALL_FUNCTION_NAME (PStr (py_str env tn)),
                        SetAttribute TOOL_CALL_FUNCTION_ARGUMENTS_JSON (PStr j)]
                       @ failed_trace e args kwargs @ [EndSpan], Inl e)"
            using assms(1) iv tn Inr
            by (simp add: ToolCallWrapper_def start_as_current_span_def andthen_def mc)
          then show ?thesis
            unfolding 4
            by (intro exI [of _ "if truthy instance then class_name instance else fn_name wrapped"]
                exI [of _ "py_dict [(OPENINFERENCE_SPAN_KIND, PStr TOOL), (INPUT_VALUE, PStr iv)]"]
                exI [of _ "[SetAttribute TOOL_CALL_FUNCTION_NAME (PStr (py_str env tn)),
                        SetAttribute TOOL_CALL_FUNCTION_ARGUMENTS_JSON (PStr j)]"]) simp
        qed
      qed
    qed
  qed
qed

text \<open>
  Claim C1, as stated, fails for an exception that does not derive from \<^verbatim>\<open>Exception\<close>: the
  handler of every wrapper is \<^verbatim>\<open>except Exception\<close>.  When the tool call
  \<^verbatim>\<open>search(query="x")\<close> is interrupted (\<^verbatim>\<open>KeyboardInterrupt\<close>), the span ends with no
  status and no recorded exception.
\<close>

theorem interrupted_call_leaves_span_unset:
  \<open>ToolCallWrapper example_env (forward (Inl (PyExn False ''KeyboardInterrupt'' ''''))) search_tool []
     [(''query'', PStr ''x'')] =
     ([StartSpan ''SearchTool''
         [(OPENINFERENCE_SPAN_KIND, PStr TOOL), (INPUT_VALUE, PStr ''{"query": "x"}'')],
       SetAttribute TOOL_CALL_FUNCTION_NAME (PStr ''search''),
       SetAttribute TOOL_CALL_FUNCTION_ARGUMENTS_JSON (PStr ''{"query": "x"}''),
       CallWrapped [] [(''query'', PStr ''x'')],
       EndSpan], Inl (PyExn False ''KeyboardInterrupt'' ''''))
   \<and> span_status (final_span (fst (ToolCallWrapper example_env
          (forward (Inl (PyExn False ''KeyboardInterrupt'' ''''))) search_tool []
          [(''query'', PStr ''x'')]))) = UNSET
   \<and> span_events (final_span (fst (ToolCallWrapper example_env
          (forward (Inl (PyExn False ''KeyboardInterrupt'' ''''))) search_tool []
          [(''query'', PStr ''x'')]))) = []\<close>
  by (simp add: ToolCallWrapper_def demo_defs eval_defs)

text \<open>
  Claim C1, amended.  In each of the four wrappers, when the instrumentation is not
  suppressed and the wrapper reaches the wrapped call, and the call raises: the wrapper
  raises the identical exception and the span is ended; if the exception derives from
  \<^verbatim>\<open>Exception\<close>, the span has the status ERROR with the exception's message and the
  exception is the one recorded on it; any other exception (\<^verbatim>\<open>KeyboardInterrupt\<close>,
  \<^verbatim>\<open>SystemExit\<close>) leaves the span without status and without recorded exception.
\<close>

theorem wrapped_exception_amended:
  assumes "\<not> suppress_instrumentation env"
    and "W \<in> {RunWrapper, StepWrapper, ModelWrapper, ToolCallWrapper}"
    and "CallWrapped args kwargs \<in> set (fst (W env wrapped instance args kwargs))"
    and "outcome (fn_call wrapped instance args kwargs) = Inl e"
  shows "snd (W env wrapped instance args kwargs) = Inl e
    \<and> span_ended (final_span (fst (W env wrapped instance args kwargs)))
    \<and> span_status (final_span (fst (W env wrapped instance args kwargs))) =
        (if is_Exception e then ERROR (exn_str e) else UNSET)
    \<and> span_events (final_span (fst (W env wrapped instance args kwargs))) =
        (if is_Exception e then [e] else [])"
proof -
  from wrapper_raises_shape [OF assms] obtain n a pre where pre: "attribute_events pre"
    and R: "W env wrapped instance args kwargs =
              (StartSpan n a # pre @ failed_trace e args kwargs @ [EndSpan], Inl e)"
    by blast
  show ?thesis
    unfolding R fst_conv snd_conv
    using final_span_failed [OF pre] final_span_passed_through [OF pre]
    by (simp add: failed_trace_def)
qed

theorem wrapped_exception_amended_witness:
  "\<not> suppress_instrumentation example_env
   \<and> ToolCallWrapper \<in> {RunWrapper, StepWrapper, ModelWrapper, ToolCallWrapper}
   \<and> CallWrapped [] [(''query'', PStr ''x'')]
        \<in> set (fst (ToolCallWrapper example_env (forward (Inl (PyExn True ''RuntimeError'' ''timeout'')))
                     search_tool [] [(''query'', PStr ''x'')]))
   \<and> outcome (fn_call (forward (Inl (PyExn True ''RuntimeError'' ''timeout''))) search_tool []
        [(''query'', PStr ''x'')]) = Inl (PyExn True ''RuntimeError'' ''timeout'')
   \<and> snd (ToolCallWrapper example_env (forward (Inl (PyExn True ''RuntimeError'' ''timeout'')))
             search_tool [] [(''query'', PStr ''x'')]) = Inl (PyExn True ''RuntimeError'' ''timeout'')
   \<and> span_status (final_span (fst (ToolCallWrapper example_env
          (forward (Inl (PyExn True ''RuntimeError'' ''timeout''))) search_tool []
          [(''query'', PStr ''x'')]))) = ERROR ''timeout''
   \<and> span_events (final_span (fst (ToolCallWrapper example_env
          (forward (Inl (PyExn True ''RuntimeError'' ''timeout''))) search_tool []
          [(''query'', PStr ''x'')]))) = [PyExn True ''RuntimeError'' ''timeout'']"
proof -
  have c: "CallWrapped [] [(''query'', PStr ''x'')]
        \<in> set (fst (ToolCallWrapper example_env (forward (Inl (PyExn True ''RuntimeError'' ''timeout'')))
                     search_tool [] [(''query'', PStr ''x'')]))"
    by (simp add: ToolCallWrapper_def demo_defs eval_defs)
  have o: "outcome (fn_call (forward (Inl (PyExn True ''RuntimeError'' ''timeout''))) search_tool []
        [(''query'', PStr ''x'')]) = Inl (PyExn True ''RuntimeError'' ''timeout'')"
    by (simp add: demo_defs)
  have s: "\<not> suppress_instrumentation example_env"
    by (simp add: demo_defs)
  show ?thesis
    using wrapped_exception_amended [where W = ToolCallWrapper, OF s _ c o] c o s by simp
qed

subsection \<open>Attribute stores and the outcome of a sequence\<close>

lemma map_of_dict_set [simp]: "map_of (dict_set k v d) = (map_of d)(k \<mapsto> v)"
  by (simp add: dict_set_def update_conv')

lemma map_of_dict_update: "map_of (dict_update d kvs) = map_of d ++ map_of (rev kvs)"
  unfolding dict_update_def
proof (induction kvs arbitrary: d)
  case Nil
  show ?case by simp
next
  case (Cons kv kvs)
  obtain k v where kv: "kv = (k, v)" by (cases kv)
  show ?case
    by (auto simp: kv Cons.IH map_add_def fun_eq_iff split: option.splits)
qed

lemma distinct_dict_update:
  "distinct (map fst d) \<Longrightarrow> distinct (map fst (dict_update d kvs))"
  unfolding dict_update_def
  by (induction kvs arbitrary: d) (auto simp: dict_set_def distinct_update)

lemma distinct_py_dict: "distinct (map fst (py_dict kvs))"
  by (simp add: py_dict_def distinct_dict_update)

lemma map_of_rev_distinct: "distinct (map fst xs) \<Longrightarrow> map_of (rev xs) = map_of xs"
  by (induction xs) (auto simp: map_add_def fun_eq_iff split: option.splits dest: map_of_SomeD intro: rev_image_eqI)

lemma map_of_update_py_dict:
  "map_of (dict_update d (py_dict kvs)) = map_of d ++ map_of (py_dict kvs)"
  by (simp add: map_of_dict_update map_of_rev_distinct distinct_py_dict)

lemma snd_andthen_eq_Inr:
  "(snd (andthen m f) = Inr x) = (\<exists>a. snd m = Inr a \<and> snd (f a) = Inr x)"
  by (cases "snd m") (simp_all add: andthen_def)

lemma fst_andthen:
  "fst (andthen m f) = fst m @ (case snd m of Inl e \<Rightarrow> [] | Inr a \<Rightarrow> fst (f a))"
  by (cases "snd m") (simp_all add: andthen_def)

lemma fst_start_span [simp]:
  "fst (start_as_current_span n a body) = StartSpan n a # fst body @ [EndSpan]"
  and snd_start_span [simp]: "snd (start_as_current_span n a body) = snd body"
  by (simp_all add: start_as_current_span_def)

lemma snd_try_eq_Inr:
  "(snd (try_except_Exception body record_and_reraise) = Inr x) = (snd body = Inr x)"
  by (cases "snd body") (simp_all add: try_except_Exception_def)

lemma fst_try_Inr:
  "snd body = Inr x \<Longrightarrow> fst (try_except_Exception body h) = fst body"
  by (simp add: try_except_Exception_def)

lemma snd_call_wrapped_eq_Inr:
  "(snd (call_wrapped w i a k) = Inr x) =
   (\<exists>r. outcome (fn_call w i a k) = Inr r \<and>
        x = (r, instance_after (fn_call w i a k), args_after (fn_call w i a k)))"
  by (cases "outcome (fn_call w i a k)") (auto simp: call_wrapped_def Let_def)

lemma fst_call_wrapped [simp]: "fst (call_wrapped w i a k) = [CallWrapped a k]"
  by (simp add: call_wrapped_def Let_def)

lemma flatten_kind_input [simp]:
  "flatten (PDict [(k1, PStr a), (k2, PStr b)]) = Inr [(k1, PStr a), (k2, PStr b)]"
  by simp


lemma try_call_Inr:
  "outcome (fn_call w i a k) = Inr r \<Longrightarrow>
   try_except_Exception (call_wrapped w i a k) h =
     ([CallWrapped a k], Inr (r, instance_after (fn_call w i a k), args_after (fn_call w i a k)))"
  by (simp add: try_except_Exception_def call_wrapped_def Let_def)

lemma step_call_Inr:
  assumes "outcome (fn_call wrapped inst args kwargs) = Inr result"
    and "args_after (fn_call wrapped inst args kwargs) = step_log # rest"
  shows "step_call wrapped inst args kwargs =
           (CallWrapped args kwargs #
              (if result \<noteq> PNone then [SetAttribute ''Final answer'' result] else []),
            Inr (result, step_log))"
  using assms
  by (simp add: step_call_def call_wrapped_Inr try_except_Exception_def)

lemma step_trace:
  assumes "\<not> suppress_instrumentation env"
    and "getattr inst ''step_number'' = Inr sn"
    and "outcome (fn_call wrapped inst args kwargs) = Inr result"
    and "args_after (fn_call wrapped inst args kwargs) = step_log # rest"
    and "getattr step_log ''error'' = Inr err"
    and "getattr step_log ''observations'' = Inr obs"
  shows "StepWrapper env wrapped inst args kwargs =
     (StartSpan (''Step '' @ py_str env sn) [(OPENINFERENCE_SPAN_KIND, PStr CHAIN)]
        # CallWrapped args kwargs
        # (if result \<noteq> PNone then [SetAttribute ''Final answer'' result] else [])
        @ (if err \<noteq> PNone then [SetAttribute ''Error'' (PStr (py_str env err))] else [])
        @ [SetAttribute ''Observations'' obs, SetStatus OK, SetAttribute OUTPUT_VALUE obs,
           SetAttributes (py_dict (attributes_from_context env)), EndSpan],
      Inr result)"
  using assms(1,2,5,6)
  by (simp add: StepWrapper_def step_call_Inr [OF assms(3,4)] start_as_current_span_def)

lemma step_called:
  assumes "\<not> suppress_instrumentation env"
    and "CallWrapped args kwargs \<in> set (fst (StepWrapper env wrapped inst args kwargs))"
  shows "\<exists>sn. getattr inst ''step_number'' = Inr sn"
  using assms
  by (cases "getattr inst ''step_number''") (simp_all add: StepWrapper_def)

subsection \<open>A step whose log records an error\<close>



subsection \<open>The input value of a run\<close>

lemma map_of_rev_None: "map_of kvs k = None \<Longrightarrow> map_of (rev kvs) k = None"
  by (simp add: map_of_eq_None_iff)

lemma apply_event_keeps_key:
  "keeps_key k ev \<Longrightarrow> map_of (span_attributes (apply_event ev sp)) k = map_of (span_attributes sp) k"
  by (cases ev) (simp_all add: map_of_dict_update map_add_def map_of_rev_None)

lemma fold_keeps_key:
  "list_all (keeps_key k) t \<Longrightarrow>
   map_of (span_attributes (fold apply_event t sp)) k = map_of (span_attributes sp) k"
  by (induction t arbitrary: sp) (simp_all add: apply_event_keeps_key)

lemma list_all_andthen:
  "list_all P (fst m) \<Longrightarrow> (\<And>x. list_all P (fst (f x))) \<Longrightarrow> list_all P (fst (andthen m f))"
  by (cases "snd m") (simp_all add: andthen_def)

lemma list_all_try:
  "list_all P (fst body) \<Longrightarrow> (\<And>e. list_all P (fst (h e))) \<Longrightarrow>
   list_all P (fst (try_except_Exception body h))"
  by (cases "snd body") (simp_all add: try_except_Exception_def)

lemma fst_andthen_emit: "fst (andthen (emit ev) f) = ev # fst (f ())"
  by simp

lemma list_all_fst_andthen:
  "list_all P (fst (andthen m f)) =
     (list_all P (fst m) \<and> (\<forall>a. snd m = Inr a \<longrightarrow> list_all P (fst (f a))))"
  by (cases "snd m") (simp_all add: andthen_def)

lemma list_all_fst_try:
  "list_all P (fst (try_except_Exception body record_and_reraise)) =
     (list_all P (fst body) \<and>
      (\<forall>e. snd body = Inl e \<and> is_Exception e \<longrightarrow>
           P (SetStatus (ERROR (exn_str e))) \<and> P (RecordException e)))"
  by (cases "snd body") (auto simp: try_except_Exception_def)

lemma run_inputs_task:
  assumes "getattr agent ''task'' = Inr task"
  shows "\<exists>t'. fst (run_inputs env agent kwargs) = SetAttribute INPUT_VALUE task # t'
              \<and> list_all (keeps_key INPUT_VALUE) t'"
  unfolding run_inputs_def
  apply (simp only: assms andthen_lift_Inr andthen_ret fst_andthen_emit)
  apply (rule exI, rule conjI, rule refl)
  apply (simp add: list_all_fst_andthen)
  done

lemma run_call_keeps_input:
  "list_all (keeps_key INPUT_VALUE) (fst (run_call env wrapped agent args kwargs))"
  unfolding run_call_def
  by (simp add: list_all_fst_andthen list_all_fst_try split_paired_all)

lemma run_called:
  assumes "\<not> suppress_instrumentation env"
    and "CallWrapped args kwargs \<in> set (fst (RunWrapper env wrapped inst args kwargs))"
  shows "\<exists>iv. get_input_value env (fn_signature wrapped) args kwargs = Inr iv
               \<and> snd (run_inputs env inst kwargs) = Inr ()"
proof (cases "get_input_value env (fn_signature wrapped) args kwargs")
  case (Inl e)
  with assms show ?thesis by (simp add: RunWrapper_def)
next
  case (Inr iv)
  show ?thesis
  proof (cases "snd (run_inputs env inst kwargs)")
    case (Inl e)
    with assms Inr attribute_events_run_inputs [of env "inst" kwargs] show ?thesis
      by (auto simp: RunWrapper_def fst_andthen dest: attribute_events_no_call)
  next
    case (Inr u)
    with \<open>get_input_value env (fn_signature wrapped) args kwargs = Inr iv\<close> show ?thesis by simp
  qed
qed



subsection \<open>After a wrapped call that returns\<close>

lemma tool_called:
  assumes "\<not> suppress_instrumentation env"
    and "CallWrapped args kwargs \<in> set (fst (ToolCallWrapper env wrapped inst args kwargs))"
  shows "\<exists>iv tn j. get_input_value env (fn_signature wrapped) args kwargs = Inr iv
            \<and> getattr_class inst ''name'' = Inr tn
            \<and> json_dumps env (PDict kwargs) = Inr j"
proof (cases "get_input_value env (fn_signature wrapped) args kwargs")
  case (Inl e)
  with assms show ?thesis by (simp add: ToolCallWrapper_def)
next
  case (Inr iv)
  note iv = Inr
  show ?thesis
  proof (cases "getattr_class inst ''name''")
    case (Inl e)
    with assms iv show ?thesis by (simp add: ToolCallWrapper_def)
  next
    case (Inr tn)
    note tn = Inr
    show ?thesis
    proof (cases "json_dumps env (PDict kwargs)")
      case (Inl e)
      with assms iv tn show ?thesis by (simp add: ToolCallWrapper_def)
    next
      case (Inr j)
      with iv tn show ?thesis by simp
    qed
  qed
qed

lemma tool_returns:
  assumes "\<not> suppress_instrumentation env"
    and "CallWrapped args kwargs \<in> set (fst (ToolCallWrapper env wrapped inst args kwargs))"
    and "outcome (fn_call wrapped inst args kwargs) = Inr r"
  shows "snd (ToolCallWrapper env wrapped inst args kwargs) = Inr r"
proof -
  from tool_called [OF assms(1,2)] obtain iv tn j
    where "get_input_value env (fn_signature wrapped) args kwargs = Inr iv"
      and "getattr_class inst ''name'' = Inr tn"
      and "json_dumps env (PDict kwargs) = Inr j"
    by blast
  with assms(1) show ?thesis
    by (simp add: ToolCallWrapper_def try_call_Inr [OF assms(3)])
qed

lemma step_returns:
  assumes "\<not> suppress_instrumentation env"
    and "CallWrapped args kwargs \<in> set (fst (StepWrapper env wrapped inst args kwargs))"
    and "outcome (fn_call wrapped inst args kwargs) = Inr r"
    and "args_after (fn_call wrapped inst args kwargs) = step_log # rest"
    and "getattr step_log ''error'' = Inr err"
    and "getattr step_log ''observations'' = Inr obs"
  shows "snd (StepWrapper env wrapped inst args kwargs) = Inr r"
proof -
  from step_called [OF assms(1,2)] obtain sn where sn: "getattr inst ''step_number'' = Inr sn"
    by blast
  show ?thesis
    by (simp add: step_trace [OF assms(1) sn assms(3-6)])
qed

lemma run_call_Inr:
  assumes "outcome (fn_call wrapped agent args kwargs) = Inr r"
    and "getattr (instance_after (fn_call wrapped agent args kwargs)) ''monitor'' = Inr m"
    and "getattr m ''total_input_token_count'' = Inr a"
    and "getattr m ''total_output_token_count'' = Inr b"
    and "py_add a b = Inr t"
  shows "run_call env wrapped agent args kwargs =
           ([CallWrapped args kwargs, SetAttribute LLM_TOKEN_COUNT_PROMPT a,
             SetAttribute LLM_TOKEN_COUNT_COMPLETION b, SetAttribute LLM_TOKEN_COUNT_TOTAL t],
            Inr r)"
  using assms
  by (simp add: run_call_def call_wrapped_Inr try_except_Exception_def)

lemma run_returns:
  assumes "\<not> suppress_instrumentation env"
    and "CallWrapped args kwargs \<in> set (fst (RunWrapper env wrapped inst args kwargs))"
    and "outcome (fn_call wrapped inst args kwargs) = Inr r"
    and "getattr (instance_after (fn_call wrapped inst args kwargs)) ''monitor'' = Inr m"
    and "getattr m ''total_input_token_count'' = Inr a"
    and "getattr m ''total_output_token_count'' = Inr b"
    and "py_add a b = Inr t"
  shows "snd (RunWrapper env wrapped inst args kwargs) = Inr r"
proof -
  from run_called [OF assms(1,2)] obtain iv
    where iv: "get_input_value env (fn_signature wrapped) args kwargs = Inr iv"
      and ri: "snd (run_inputs env inst kwargs) = Inr ()"
    by blast
  show ?thesis
    using assms(1) iv ri
    by (simp add: RunWrapper_def run_call_Inr [OF assms(3-7)] snd_andthen_eq_Inr andthen_def)
qed

lemma model_outputs_Inr:
  assumes "getattr model ''last_input_token_count'' = Inr a"
    and "getattr model ''last_output_token_count'' = Inr b"
    and "getattr model ''model_id'' = Inr mid"
    and "py_add a b = Inr t"
    and "llm_tools env (dict_get arguments ''tools_to_call_from'' (PList [])) = Inr tools"
    and "getattr output_message ''model_dump_json'' = Inr dump"
    and "call0 dump = Inr j"
  shows "model_outputs env model arguments output_message =
     ([SetAttribute LLM_TOKEN_COUNT_PROMPT a, SetAttribute LLM_TOKEN_COUNT_COMPLETION b,
       SetAttribute LLM_MODEL_NAME mid, SetAttribute LLM_TOKEN_COUNT_TOTAL t,
       SetStatus OK, SetAttribute OUTPUT_VALUE output_message,
       SetAttributes (py_dict (llm_output_messages output_message)),
       SetAttributes (py_dict tools),
       SetAttributes [(OUTPUT_MIME_TYPE, PStr JSON), (OUTPUT_VALUE, j)]], Inr ())"
  using assms
  by (simp add: model_outputs_def output_value_and_mime_type_def py_dict_def dict_update_def
      dict_set_def)

lemma model_called:
  assumes "\<not> suppress_instrumentation env"
    and "CallWrapped args kwargs \<in> set (fst (ModelWrapper env wrapped inst args kwargs))"
  shows "\<exists>arguments attrs. bind_arguments (fn_signature wrapped) args kwargs = Inr arguments
            \<and> model_start_attributes env inst arguments = Inr attrs"
proof (cases "bind_arguments (fn_signature wrapped) args kwargs")
  case (Inl e)
  with assms show ?thesis by (simp add: ModelWrapper_def)
next
  case (Inr arguments)
  note ba = Inr
  show ?thesis
  proof (cases "model_start_attributes env inst arguments")
    case (Inl e)
    with assms ba show ?thesis by (simp add: ModelWrapper_def)
  next
    case (Inr attrs)
    with ba show ?thesis by simp
  qed
qed

lemma model_returns:
  assumes "\<not> suppress_instrumentation env"
    and "CallWrapped args kwargs \<in> set (fst (ModelWrapper env wrapped inst args kwargs))"
    and "outcome (fn_call wrapped inst args kwargs) = Inr r"
    and "getattr (instance_after (fn_call wrapped inst args kwargs)) ''last_input_token_count'' = Inr a"
    and "getattr (instance_after (fn_call wrapped inst args kwargs)) ''last_output_token_count'' = Inr b"
    and "getattr (instance_after (fn_call wrapped inst args kwargs)) ''model_id'' = Inr mid"
    and "py_add a b = Inr t"
    and "\<And>arguments. bind_arguments (fn_signature wrapped) args kwargs = Inr arguments \<Longrightarrow>
           \<exists>tools. llm_tools env (dict_get arguments ''tools_to_call_from'' (PList [])) = Inr tools"
    and "getattr r ''model_dump_json'' = Inr dump"
    and "call0 dump = Inr j"
  shows "snd (ModelWrapper env wrapped inst args kwargs) = Inr r"
proof -
  from model_called [OF assms(1,2)] obtain arguments attrs
    where ba: "bind_arguments (fn_signature wrapped) args kwargs = Inr arguments"
      and sa: "model_start_attributes env inst arguments = Inr attrs"
    by blast
  from assms(8) [OF ba] obtain tools
    where tools: "llm_tools env (dict_get arguments ''tools_to_call_from'' (PList [])) = Inr tools"
    by blast
  show ?thesis
    using assms(1) ba sa
    by (simp add: ModelWrapper_def try_call_Inr [OF assms(3)]
        model_outputs_Inr [OF assms(4,5,6,7) tools assms(9,10)])
qed

lemma two_last:
  "2 \<le> length xs \<Longrightarrow> last xs = b \<Longrightarrow> last (butlast xs) = a \<Longrightarrow> \<exists>pre. xs = pre @ [a, b]"
proof -
  assume len: "2 \<le> length xs" and b: "last xs = b" and a: "last (butlast xs) = a"
  from len have "xs \<noteq> []" and "butlast xs \<noteq> []"
    by (auto simp: butlast_conv_take)
  then have "xs = butlast (butlast xs) @ [last (butlast xs), last xs]"
    by (metis append_butlast_last_id append.assoc append_Cons append_Nil)
  with a b show ?thesis by blast
qed

lemma span_attr_ambient_last:
  assumes "map_of (py_dict c) k = Some v"
  shows "span_attr (pre @ [SetAttributes (py_dict c), EndSpan]) k = Some v"
  using assms
  by (simp add: span_attr_def final_span_def map_of_update_py_dict)

lemma run_success_tail:
  assumes "\<not> suppress_instrumentation env"
    and "snd (RunWrapper env wrapped inst args kwargs) = Inr r"
  shows "2 \<le> length (fst (RunWrapper env wrapped inst args kwargs))
       \<and> last (fst (RunWrapper env wrapped inst args kwargs)) = EndSpan
       \<and> last (butlast (fst (RunWrapper env wrapped inst args kwargs))) =
           SetAttributes (py_dict (attributes_from_context env))"
  using assms
  by (auto simp: RunWrapper_def snd_andthen_eq_Inr fst_andthen butlast_append)

lemma step_success_tail:
  assumes "\<not> suppress_instrumentation env"
    and "snd (StepWrapper env wrapped inst args kwargs) = Inr r"
  shows "2 \<le> length (fst (StepWrapper env wrapped inst args kwargs))
       \<and> last (fst (StepWrapper env wrapped inst args kwargs)) = EndSpan
       \<and> last (butlast (fst (StepWrapper env wrapped inst args kwargs))) =
           SetAttributes (py_dict (attributes_from_context env))"
  using assms
  by (auto simp: StepWrapper_def snd_andthen_eq_Inr fst_andthen butlast_append split: if_splits)

lemma tool_success_tail:
  assumes "\<not> suppress_instrumentation env"
    and "snd (ToolCallWrapper env wrapped inst args kwargs) = Inr r"
  shows "2 \<le> length (fst (ToolCallWrapper env wrapped inst args kwargs))
       \<and> last (fst (ToolCallWrapper env wrapped inst args kwargs)) = EndSpan
       \<and> last (butlast (fst (ToolCallWrapper env wrapped inst args kwargs))) =
           SetAttributes (py_dict (attributes_from_context env))"
  using assms
  by (auto simp: ToolCallWrapper_def snd_andthen_eq_Inr fst_andthen butlast_append split: if_splits)

lemma map_of_dict_update_later:
  "map_of kvs k = Some v \<Longrightarrow> distinct (map fst kvs) \<Longrightarrow> map_of (dict_update d kvs) k = Some v"
  by (simp add: map_of_dict_update map_of_rev_distinct)

lemma model_start_has_ambient:
  assumes "model_start_attributes env inst arguments = Inr attrs"
    and "map_of (py_dict (attributes_from_context env)) k = Some v"
  shows "map_of attrs k = Some v"
  using assms
  by (auto simp: model_start_attributes_def bindE_def map_of_update_py_dict split: sum.splits)

lemma model_start_span:
  assumes "fst (ModelWrapper env wrapped inst args kwargs) = StartSpan n attrs # rest"
  shows "\<exists>arguments. model_start_attributes env inst arguments = Inr attrs"
proof (cases "suppress_instrumentation env")
  case True
  with assms show ?thesis by (simp add: ModelWrapper_def suppressed_call)
next
  case False
  note ns = False
  show ?thesis
  proof (cases "bind_arguments (fn_signature wrapped) args kwargs")
    case (Inl e)
    with assms ns show ?thesis by (simp add: ModelWrapper_def)
  next
    case (Inr arguments)
    note ba = Inr
    show ?thesis
    proof (cases "model_start_attributes env inst arguments")
      case (Inl e)
      with assms ns ba show ?thesis by (simp add: ModelWrapper_def)
    next
      case (Inr attrs')
      with assms ns ba show ?thesis by (auto simp: ModelWrapper_def)
    qed
  qed
qed

lemma bindE_eq_Inr: "(bindE m f = Inr x) = (\<exists>a. m = Inr a \<and> f a = Inr x)"
  by (cases m) simp_all

lemma model_outputs_success:
  assumes "snd (model_outputs env model arguments out) = Inr u"
  shows "\<exists>a b mid t tools dump j.
           getattr model ''last_input_token_count'' = Inr a
         \<and> getattr model ''last_output_token_count'' = Inr b
         \<and> getattr model ''model_id'' = Inr mid
         \<and> py_add a b = Inr t
         \<and> llm_tools env (dict_get arguments ''tools_to_call_from'' (PList [])) = Inr tools
         \<and> getattr out ''model_dump_json'' = Inr dump
         \<and> call0 dump = Inr j"
  using assms
  by (auto simp: model_outputs_def snd_andthen_eq_Inr output_value_and_mime_type_def bindE_eq_Inr)

lemma model_success_tail:
  assumes "\<not> suppress_instrumentation env"
    and "snd (ModelWrapper env wrapped inst args kwargs) = Inr r"
  shows "\<exists>j. bindE (getattr r ''model_dump_json'') call0 = Inr j
       \<and> last (butlast (fst (ModelWrapper env wrapped inst args kwargs))) =
            SetAttributes [(OUTPUT_MIME_TYPE, PStr JSON), (OUTPUT_VALUE, j)]
       \<and> last (fst (ModelWrapper env wrapped inst args kwargs)) = EndSpan
       \<and> span_attr (fst (ModelWrapper env wrapped inst args kwargs)) OUTPUT_VALUE = Some j"
proof -
  from assms obtain arguments attrs
    where ba: "bind_arguments (fn_signature wrapped) args kwargs = Inr arguments"
      and sa: "model_start_attributes env inst arguments = Inr attrs"
      and oc: "outcome (fn_call wrapped inst args kwargs) = Inr r"
      and mo: "snd (model_outputs env (instance_after (fn_call wrapped inst args kwargs))
                 arguments r) = Inr ()"
    by (auto simp: ModelWrapper_def snd_andthen_eq_Inr snd_try_eq_Inr snd_call_wrapped_eq_Inr)
  from model_outputs_success [OF mo] obtain a b mid t tools dump j
    where reads: "getattr (instance_after (fn_call wrapped inst args kwargs)) ''last_input_token_count'' = Inr a"
      "getattr (instance_after (fn_call wrapped inst args kwargs)) ''last_output_token_count'' = Inr b"
      "getattr (instance_after (fn_call wrapped inst args kwargs)) ''model_id'' = Inr mid"
      "py_add a b = Inr t"
      "llm_tools env (dict_get arguments ''tools_to_call_from'' (PList [])) = Inr tools"
      "getattr r ''model_dump_json'' = Inr dump"
      "call0 dump = Inr j"
    by blast
  have R: "fst (ModelWrapper env wrapped inst args kwargs) =
      StartSpan (if truthy inst then class_name inst @ ''.__call__'' else fn_name wrapped) attrs
      # CallWrapped args kwargs
      # [SetAttribute LLM_TOKEN_COUNT_PROMPT a, SetAttribute LLM_TOKEN_COUNT_COMPLETION b,
         SetAttribute LLM_MODEL_NAME mid, SetAttribute LLM_TOKEN_COUNT_TOTAL t,
         SetStatus OK, SetAttribute OUTPUT_VALUE r,
         SetAttributes (py_dict (llm_output_messages r)),
         SetAttributes (py_dict tools),
         SetAttributes [(OUTPUT_MIME_TYPE, PStr JSON), (OUTPUT_VALUE, j)]]
      @ [EndSpan]"
    using assms(1) ba sa
    by (simp add: ModelWrapper_def try_call_Inr [OF oc] model_outputs_Inr [OF reads])
  show ?thesis
    unfolding R using reads(6,7)
    by (simp add: span_attr_def final_span_def map_of_dict_update)
qed

text \<open>
  Claim C7, amended.  In the Run, Step and Tool wrappers, when the interception is not
  suppressed and the wrapper returns normally, the merge of the ambient attributes is the
  last event before the span is closed, so every ambient attribute is on the finished span
  with the ambient value.  In the Model wrapper the ambient attributes are merged earlier:
  they are the last part of the attributes the span is started with, where they win over
  the other initial attributes; and when the Model wrapper returns normally, the last event
  before the span is closed writes the output mime type and the output value obtained from
  \<^verbatim>\<open>model_dump_json()\<close>, so the finished span carries that output value.
\<close>

theorem ambient_attributes_amended:
  "(\<not> suppress_instrumentation env \<and> W \<in> {RunWrapper, StepWrapper, ToolCallWrapper}
      \<and> snd (W env wrapped inst args kwargs) = Inr r
    \<longrightarrow> (\<exists>pre. fst (W env wrapped inst args kwargs) =
                  pre @ [SetAttributes (py_dict (attributes_from_context env)), EndSpan])
        \<and> (\<forall>k v. map_of (py_dict (attributes_from_context env)) k = Some v
                \<longrightarrow> span_attr (fst (W env wrapped inst args kwargs)) k = Some v))
   \<and> (fst (ModelWrapper env wrapped inst args kwargs) = StartSpan n attrs # rest
    \<longrightarrow> (\<forall>k v. map_of (py_dict (attributes_from_context env)) k = Some v
                \<longrightarrow> map_of attrs k = Some v))
   \<and> (\<not> suppress_instrumentation env \<and> snd (ModelWrapper env wrapped inst args kwargs) = Inr r
    \<longrightarrow> (\<exists>j. bindE (getattr r ''model_dump_json'') call0 = Inr j
          \<and> last (butlast (fst (ModelWrapper env wrapped inst args kwargs))) =
               SetAttributes [(OUTPUT_MIME_TYPE, PStr JSON), (OUTPUT_VALUE, j)]
          \<and> last (fst (ModelWrapper env wrapped inst args kwargs)) = EndSpan
          \<and> span_attr (fst (ModelWrapper env wrapped inst args kwargs)) OUTPUT_VALUE = Some j))"
proof (intro conjI impI allI)
  assume h: "\<not> suppress_instrumentation env \<and> W \<in> {RunWrapper, StepWrapper, ToolCallWrapper}
      \<and> snd (W env wrapped inst args kwargs) = Inr r"
  then have "2 \<le> length (fst (W env wrapped inst args kwargs))
       \<and> last (fst (W env wrapped inst args kwargs)) = EndSpan
       \<and> last (butlast (fst (W env wrapped inst args kwargs))) =
           SetAttributes (py_dict (attributes_from_context env))"
    using run_success_tail step_success_tail tool_success_tail by auto
  then show tail: "\<exists>pre. fst (W env wrapped inst args kwargs) =
                  pre @ [SetAttributes (py_dict (attributes_from_context env)), EndSpan]"
    by (simp add: two_last)
  fix k v
  assume "map_of (py_dict (attributes_from_context env)) k = Some v"
  with tail show "span_attr (fst (W env wrapped inst args kwargs)) k = Some v"
    by (auto simp: span_attr_ambient_last)
next
  fix k v
  assume "fst (ModelWrapper env wrapped inst args kwargs) = StartSpan n attrs # rest"
    and "map_of (py_dict (attributes_from_context env)) k = Some v"
  then show "map_of attrs k = Some v"
    using model_start_span model_start_has_ambient by blast
next
  assume "\<not> suppress_instrumentation env \<and> snd (ModelWrapper env wrapped inst args kwargs) = Inr r"
  then show "\<exists>j. bindE (getattr r ''model_dump_json'') call0 = Inr j
          \<and> last (butlast (fst (ModelWrapper env wrapped inst args kwargs))) =
               SetAttributes [(OUTPUT_MIME_TYPE, PStr JSON), (OUTPUT_VALUE, j)]
          \<and> last (fst (ModelWrapper env wrapped inst args kwargs)) = EndSpan
          \<and> span_attr (fst (ModelWrapper env wrapped inst args kwargs)) OUTPUT_VALUE = Some j"
    using model_success_tail by blast
qed




subsection \<open>The scenarios, executed\<close>

text \<open>
  The traces of the wrappers on the scenarios: an agent run with the task \<^verbatim>\<open>2+2\<close> whose
  token total is 15, a step whose log records an error, a model call with one user
  message under an ambient output value, and a tool call that returns.
\<close>

lemmas scenario_defs = chat_model_def chat_message_def model_call_def user_messages_def
  code_agent_def run_fn_def step_agent_def action_step_def step_fn_def ambient_env_def

lemmas wrapper_defs = RunWrapper_def run_inputs_def run_call_def managed_agent_entry_def
  StepWrapper_def step_call_def ModelWrapper_def model_start_attributes_def model_outputs_def
  llm_input_messages_def llm_output_messages_def output_value_and_mime_type_def
  llm_invocation_parameters_def llm_tools_def input_value_and_mime_type_def ToolCallWrapper_def
  py_add_def add_numbers_def enumerate_eq_zip

lemma run_example:
  \<open>RunWrapper example_env (run_fn (Inr (PStr ''4''))) (code_agent 0 0) [PStr ''2+2''] [] =
    ([StartSpan ''CodeAgent.run''
        [(OPENINFERENCE_SPAN_KIND, PStr AGENT), (INPUT_VALUE, PStr ''{"task": "2+2"}'')],
      SetAttribute INPUT_VALUE (PStr ''2+2''),
      SetAttribute ''agent_name'' (PStr ''CodeAgent''),
      SetAttribute ''task'' (PStr ''2+2''),
      SetAttribute ''additional_args'' (PStr []),
      SetAttribute ''additional_args'' (PStr []),
      SetAttribute ''model'' (PStr ''HfApiModel - m''),
      SetAttribute ''max_steps'' (PInt 5),
      SetAttribute ''tools_names'' (PList [PStr ''search'']),
      SetAttribute ''managed_agents'' (PStr ''[]''),
      CallWrapped [PStr ''2+2''] [],
      SetAttribute LLM_TOKEN_COUNT_PROMPT (PInt 10),
      SetAttribute LLM_TOKEN_COUNT_COMPLETION (PInt 5),
      SetAttribute LLM_TOKEN_COUNT_TOTAL (PInt 15),
      SetStatus OK,
      SetAttribute OUTPUT_VALUE (PStr ''4''),
      SetAttributes [],
      EndSpan],
     Inr (PStr ''4''))\<close>
  by (simp add: wrapper_defs scenario_defs demo_defs eval_defs)

lemma step_example:
  "StepWrapper example_env step_fn step_agent [action_step PNone PNone] [] =
    ([StartSpan ''Step 1'' [(OPENINFERENCE_SPAN_KIND, PStr CHAIN)],
      CallWrapped [action_step PNone PNone] [],
      SetAttribute ''Error'' (PStr ''tool failed''),
      SetAttribute ''Observations'' (PStr ''no output''),
      SetStatus OK,
      SetAttribute OUTPUT_VALUE (PStr ''no output''),
      SetAttributes [],
      EndSpan],
     Inr PNone)"
  by (simp add: wrapper_defs scenario_defs demo_defs eval_defs)

lemma model_example:
  \<open>ModelWrapper ambient_env (model_call (Inr chat_message)) chat_model [] user_messages =
    ([StartSpan ''HfApiModel.__call__''
        [(OPENINFERENCE_SPAN_KIND, PStr LLM), (INPUT_MIME_TYPE, PStr JSON),
         (INPUT_VALUE, PStr ''{"messages": [{"role": "user", "content": "hi"}]}''),
         (LLM_INVOCATION_PARAMETERS, PStr ''{}''),
         (''llm.input_messages.0.message.role'', PStr ''user''),
         (''llm.input_messages.0.message.content'', PStr ''hi''),
         (OUTPUT_VALUE, PStr ''ambient'')],
      CallWrapped [] user_messages,
      SetAttribute LLM_TOKEN_COUNT_PROMPT (PInt 3),
      SetAttribute LLM_TOKEN_COUNT_COMPLETION (PInt 4),
      SetAttribute LLM_MODEL_NAME (PStr ''m''),
      SetAttribute LLM_TOKEN_COUNT_TOTAL (PInt 7),
      SetStatus OK,
      SetAttribute OUTPUT_VALUE chat_message,
      SetAttributes [(''llm.output_messages.0.message.role'', PStr ''assistant''),
                     (''llm.output_messages.0.message.content'', PStr ''hello'')],
      SetAttributes [],
      SetAttributes [(OUTPUT_MIME_TYPE, PStr JSON), (OUTPUT_VALUE, PStr ''{}'')],
      EndSpan],
     Inr chat_message)\<close>
  by (simp add: wrapper_defs scenario_defs demo_defs eval_defs)

lemma tool_example:
  \<open>ToolCallWrapper example_env (forward (Inr (PStr ''found''))) search_tool [] [(''query'', PStr ''x'')] =
    ([StartSpan ''SearchTool''
        [(OPENINFERENCE_SPAN_KIND, PStr TOOL), (INPUT_VALUE, PStr ''{"query": "x"}'')],
      SetAttribute TOOL_CALL_FUNCTION_NAME (PStr ''search''),
      SetAttribute TOOL_CALL_FUNCTION_ARGUMENTS_JSON (PStr ''{"query": "x"}''),
      CallWrapped [] [(''query'', PStr ''x'')],
      SetStatus OK,
      SetAttribute OUTPUT_VALUE (PStr ''found''),
      SetAttributes [],
      EndSpan],
     Inr (PStr ''found''))\<close>
  by (simp add: wrapper_defs scenario_defs demo_defs eval_defs)

text \<open>
  Claim C7, as stated, fails for the Model wrapper.  With an ambient attribute under the key
  of the output value, the model call of the scenario returns normally; the last event
  before the span is closed is the write of the output mime type and value, not the merge
  of the ambient attributes, and the output value that remains on the span is the one from
  \<^verbatim>\<open>model_dump_json()\<close>, not the ambient one.
\<close>

theorem model_ambient_attribute_overwritten:
  \<open>map_of (py_dict (attributes_from_context ambient_env)) OUTPUT_VALUE = Some (PStr ''ambient'')
   \<and> snd (ModelWrapper ambient_env (model_call (Inr chat_message)) chat_model [] user_messages)
       = Inr chat_message
   \<and> last (butlast (fst (ModelWrapper ambient_env (model_call (Inr chat_message)) chat_model []
         user_messages)))
       = SetAttributes [(OUTPUT_MIME_TYPE, PStr JSON), (OUTPUT_VALUE, PStr ''{}'')]
   \<and> span_attr (fst (ModelWrapper ambient_env (model_call (Inr chat_message)) chat_model []
         user_messages)) OUTPUT_VALUE
       = Some (PStr ''{}'')\<close>
  unfolding model_example
  by (simp add: span_attr_def final_span_def dict_update_def dict_set_def py_dict_def
      ambient_env_def)

theorem ambient_attributes_amended_witness:
  \<open>\<not> suppress_instrumentation ambient_env
   \<and> ToolCallWrapper \<in> {RunWrapper, StepWrapper, ToolCallWrapper}
   \<and> snd (ToolCallWrapper ambient_env (forward (Inr (PStr ''found''))) search_tool []
            [(''query'', PStr ''x'')]) = Inr (PStr ''found'')
   \<and> map_of (py_dict (attributes_from_context ambient_env)) OUTPUT_VALUE = Some (PStr ''ambient'')
   \<and> span_attr (fst (ToolCallWrapper ambient_env (forward (Inr (PStr ''found''))) search_tool []
            [(''query'', PStr ''x'')])) OUTPUT_VALUE = Some (PStr ''ambient'')
   \<and> (\<exists>n attrs rest.
         fst (ModelWrapper ambient_env (model_call (Inr chat_message)) chat_model [] user_messages)
           = StartSpan n attrs # rest
         \<and> map_of attrs OUTPUT_VALUE = Some (PStr ''ambient''))
   \<and> snd (ModelWrapper ambient_env (model_call (Inr chat_message)) chat_model [] user_messages)
        = Inr chat_message
   \<and> span_attr (fst (ModelWrapper ambient_env (model_call (Inr chat_message)) chat_model []
         user_messages)) OUTPUT_VALUE
       = Some (PStr ''{}'')\<close>
proof -
  have s: "\<not> suppress_instrumentation ambient_env"
    by (simp add: scenario_defs demo_defs)
  have w: "ToolCallWrapper \<in> {RunWrapper, StepWrapper, ToolCallWrapper}"
    by simp
  have t: "snd (ToolCallWrapper ambient_env (forward (Inr (PStr ''found''))) search_tool []
            [(''query'', PStr ''x'')]) = Inr (PStr ''found'')"
    by (simp add: wrapper_defs scenario_defs demo_defs eval_defs)
  have a: "map_of (py_dict (attributes_from_context ambient_env)) OUTPUT_VALUE = Some (PStr ''ambient'')"
    by (simp add: scenario_defs demo_defs eval_defs)
  have m: "snd (ModelWrapper ambient_env (model_call (Inr chat_message)) chat_model [] user_messages)
        = Inr chat_message"
    by (simp add: model_example)
  have d: "bindE (getattr chat_message ''model_dump_json'') call0 = Inr (PStr ''{}'')"
    by (simp add: chat_message_def)
  obtain n attrs rest
    where fm: "fst (ModelWrapper ambient_env (model_call (Inr chat_message)) chat_model []
                 user_messages) = StartSpan n attrs # rest"
    by (simp add: model_example)
  note tool = ambient_attributes_amended [where W = ToolCallWrapper and env = ambient_env
      and wrapped = "forward (Inr (PStr ''found''))" and inst = search_tool and args = "[]"
      and kwargs = "[(''query'', PStr ''x'')]" and r = "PStr ''found''", THEN conjunct1]
  note model = ambient_attributes_amended [where env = ambient_env and wrapped = "model_call (Inr chat_message)"
      and inst = chat_model and args = "[]" and kwargs = user_messages and r = chat_message
      and W = ToolCallWrapper and n = n and attrs = attrs and rest = rest, THEN conjunct2]
  have "(\<exists>pre. fst (ToolCallWrapper ambient_env (forward (Inr (PStr ''found''))) search_tool []
            [(''query'', PStr ''x'')]) =
              pre @ [SetAttributes (py_dict (attributes_from_context ambient_env)), EndSpan])
      \<and> (\<forall>k v. map_of (py_dict (attributes_from_context ambient_env)) k = Some v \<longrightarrow>
          span_attr (fst (ToolCallWrapper ambient_env (forward (Inr (PStr ''found''))) search_tool []
            [(''query'', PStr ''x'')])) k = Some v)"
    by (rule mp [OF tool]) (intro conjI s w t)
  then have "\<forall>k v. map_of (py_dict (attributes_from_context ambient_env)) k = Some v \<longrightarrow>
          span_attr (fst (ToolCallWrapper ambient_env (forward (Inr (PStr ''found''))) search_tool []
            [(''query'', PStr ''x'')])) k = Some v"
    by (rule conjunct2)
  with a
  have 1: "span_attr (fst (ToolCallWrapper ambient_env (forward (Inr (PStr ''found''))) search_tool []
            [(''query'', PStr ''x'')])) OUTPUT_VALUE = Some (PStr ''ambient'')"
    by blast
  have "\<forall>k v. map_of (py_dict (attributes_from_context ambient_env)) k = Some v \<longrightarrow>
          map_of attrs k = Some v"
    by (rule mp [OF model [THEN conjunct1] fm])
  with a have "map_of attrs OUTPUT_VALUE = Some (PStr ''ambient'')"
    by blast
  with fm
  have 2: "\<exists>n attrs rest.
         fst (ModelWrapper ambient_env (model_call (Inr chat_message)) chat_model [] user_messages)
           = StartSpan n attrs # rest
         \<and> map_of attrs OUTPUT_VALUE = Some (PStr ''ambient'')"
    by blast
  have "\<exists>j. bindE (getattr chat_message ''model_dump_json'') call0 = Inr j
          \<and> last (butlast (fst (ModelWrapper ambient_env (model_call (Inr chat_message)) chat_model
                [] user_messages))) =
               SetAttributes [(OUTPUT_MIME_TYPE, PStr JSON), (OUTPUT_VALUE, j)]
          \<and> last (fst (ModelWrapper ambient_env (model_call (Inr chat_message)) chat_model []
                user_messages)) = EndSpan
          \<and> span_attr (fst (ModelWrapper ambient_env (model_call (Inr chat_message)) chat_model []
                user_messages)) OUTPUT_VALUE = Some j"
    by (rule mp [OF model [THEN conjunct2]]) (intro conjI s m)
  then obtain j where j: "bindE (getattr chat_message ''model_dump_json'') call0 = Inr j"
    and sj: "span_attr (fst (ModelWrapper ambient_env (model_call (Inr chat_message)) chat_model []
         user_messages)) OUTPUT_VALUE = Some j"
    by blast
  from j d have "j = PStr ''{}''"
    by simp
  with sj
  have 3: "span_attr (fst (ModelWrapper ambient_env (model_call (Inr chat_message)) chat_model []
         user_messages)) OUTPUT_VALUE = Some (PStr ''{}'')"
    by simp
  from s w t a 1 2 m 3 show ?thesis
    by (intro conjI)
qed





end
